theory Spec2Isabelle
  imports Main "HOL-Library.Multiset"
begin

section \<open>Strings and numbers of the source language\<close>

text \<open>
  The program is TypeScript. Its strings are modelled as \<^typ>\<open>string\<close> (lists of
  8-bit characters), which covers every ASCII text; the patterns of the program only
  accept ASCII letters, digits and \<open>-\<close>, and the case conversions are modelled on the
  ASCII letters.
  Its numbers that carry ids, season numbers, episode numbers, runtimes, sort keys
  and paging values are modelled as \<^typ>\<open>int\<close>; the model is exact for the safe
  integers of the language (absolute value below \<open>2 ^ 53\<close>), where number-to-string
  conversion is plain decimal and \<open>parseInt\<close> is exact.
  A field that may be \<open>null\<close> or \<open>undefined\<close> is an \<^typ>\<open>'a option\<close>.
\<close>

definition is_digit :: "char \<Rightarrow> bool" where
  "is_digit c = (c \<in> set ''0123456789'')"

definition is_lower :: "char \<Rightarrow> bool" where
  "is_lower c = (c \<in> set ''abcdefghijklmnopqrstuvwxyz'')"

definition digit_char :: "nat \<Rightarrow> char" where
  "digit_char d = ''0123456789'' ! d"

definition digit_val :: "char \<Rightarrow> nat" where
  "digit_val c = of_char c - 48"

text \<open>Decimal digits of a natural number, most significant first, no leading zero.\<close>

fun nat_digits :: "nat \<Rightarrow> string" where
  "nat_digits n =
     (if n < 10 then [digit_char n] else nat_digits (n div 10) @ [digit_char (n mod 10)])"

declare nat_digits.simps [simp del]

text \<open>The string a template literal \<open>`${n}`\<close> produces for an integer \<open>n\<close>.\<close>

definition number_toString :: "int \<Rightarrow> string" where
  "number_toString n =
     (if n < 0 then CHR ''-'' # nat_digits (nat (- n)) else nat_digits (nat n))"

text \<open>
  \<open>parseInt(s, 10)\<close>. The program calls it only on a capture of \<open>(\d+)\<close>, a
  non-empty string of decimal digits, where it is the decimal value.
\<close>

definition parseInt :: "string \<Rightarrow> int" where
  "parseInt s = int (foldl (\<lambda>a c. 10 * a + digit_val c) 0 s)"

text \<open>The non-negative safe integers: the ids and numbers an identifier can carry.\<close>

definition safe_id :: "int \<Rightarrow> bool" where
  "safe_id n = (0 \<le> n \<and> n \<le> 9007199254740991)"

section \<open>Identifier codec\<close>

subsection \<open>The anchored patterns of parseRatingKey\<close>

text \<open>
  Each of the five regular expressions of \<open>parseRatingKey\<close> is anchored at both
  ends and is a sequence of literal text and capture groups \<open>(\d+)\<close> and
  \<open>([a-z]+)\<close>. A pattern is the list of its pieces; \<open>regex_match\<close> returns the
  captures in order (what \<open>match[1]\<close>, \<open>match[2]\<close>, ... hold), or \<open>None\<close> where
  \<open>String.match\<close> returns \<open>null\<close>. A group takes the longest run of its
  character class, as the greedy quantifier does; \<open>re_matches\<close> below is the
  declarative meaning of a pattern, and \<open>regex_match_iff_re_matches\<close> shows that for
  these patterns the greedy choice is the only one.
\<close>

datatype piece = Lit string | Digits | Lowers

fun piece_class :: "piece \<Rightarrow> char \<Rightarrow> bool" where
  "piece_class Digits = is_digit"
| "piece_class Lowers = is_lower"
| "piece_class (Lit l) = (\<lambda>c. False)"

fun regex_match :: "piece list \<Rightarrow> string \<Rightarrow> string list option" where
  "regex_match [] s = (if s = [] then Some [] else None)"
| "regex_match (Lit l # ps) s =
     (if take (length l) s = l then regex_match ps (drop (length l) s) else None)"
| "regex_match (p # ps) s =
     (let g = takeWhile (piece_class p) s in
      if g = [] then None
      else map_option (\<lambda>caps. g # caps) (regex_match ps (dropWhile (piece_class p) s)))"

fun re_matches :: "piece list \<Rightarrow> string \<Rightarrow> string list \<Rightarrow> bool" where
  "re_matches [] s caps = (s = [] \<and> caps = [])"
| "re_matches (Lit l # ps) s caps = (\<exists>r. s = l @ r \<and> re_matches ps r caps)"
| "re_matches (p # ps) s caps =
     (\<exists>g r cs. caps = g # cs \<and> g \<noteq> [] \<and> list_all (piece_class p) g \<and> s = g @ r \<and>
        re_matches ps r cs)"

text \<open>
  A pattern is separated when each group is followed by the end of the pattern or by
  literal text whose first character is outside the group's class.
\<close>

fun separated :: "piece list \<Rightarrow> bool" where
  "separated [] = True"
| "separated (Lit l # ps) = separated ps"
| "separated (p # ps) =
     ((case ps of [] \<Rightarrow> True | Lit (c # l) # qs \<Rightarrow> \<not> piece_class p c | _ \<Rightarrow> False) \<and>
      separated ps)"

text \<open>\<open>/^tvdb-show-(\d+)$/\<close>\<close>

definition showRe :: "piece list" where
  "showRe = [Lit ''tvdb-show-'', Digits]"

text \<open>\<open>/^tvdb-season-(\d+)-(\d+)-([a-z]+)$/\<close>\<close>

definition seasonTypeRe :: "piece list" where
  "seasonTypeRe = [Lit ''tvdb-season-'', Digits, Lit ''-'', Digits, Lit ''-'', Lowers]"

text \<open>\<open>/^tvdb-season-(\d+)-(\d+)$/\<close>\<close>

definition seasonRe :: "piece list" where
  "seasonRe = [Lit ''tvdb-season-'', Digits, Lit ''-'', Digits]"

text \<open>\<open>/^tvdb-episode-(\d+)-(\d+)-(\d+)-([a-z]+)$/\<close>\<close>

definition episodeTypeRe :: "piece list" where
  "episodeTypeRe =
     [Lit ''tvdb-episode-'', Digits, Lit ''-'', Digits, Lit ''-'', Digits, Lit ''-'', Lowers]"

text \<open>\<open>/^tvdb-episode-(\d+)-(\d+)-(\d+)$/\<close>\<close>

definition episodeRe :: "piece list" where
  "episodeRe = [Lit ''tvdb-episode-'', Digits, Lit ''-'', Digits, Lit ''-'', Digits]"

text \<open>The five patterns, in the order in which \<open>parseRatingKey\<close> tries them.\<close>

definition decode_patterns :: "piece list list" where
  "decode_patterns = [showRe, seasonTypeRe, seasonRe, episodeTypeRe, episodeRe]"

text \<open>The pieces of a pattern that capture.\<close>

fun is_group :: "piece \<Rightarrow> bool" where
  "is_group (Lit l) = False"
| "is_group p = True"

subsection \<open>parseRatingKey\<close>

datatype metadata_type = TypeShow | TypeSeason | TypeEpisode

record ParsedRatingKey =
  parsed_type :: metadata_type
  parsed_seriesId :: int
  parsed_seasonNumber :: "int option"
  parsed_episodeNumber :: "int option"
  parsed_seasonType :: "string option"

text \<open>
  One decode form: a pattern together with the object the program builds from its
  captures. \<open>parseRatingKey\<close> tries the five forms in the order of the source and
  returns the first that matches, \<open>None\<close> (the source's \<open>null\<close>) when none does.
\<close>

definition showForm :: "string \<Rightarrow> ParsedRatingKey option" where
  "showForm ratingKey =
     (case regex_match showRe ratingKey of
        Some [a] \<Rightarrow> Some \<lparr>parsed_type = TypeShow, parsed_seriesId = parseInt a,
          parsed_seasonNumber = None, parsed_episodeNumber = None, parsed_seasonType = None\<rparr>
      | _ \<Rightarrow> None)"

definition seasonTypeForm :: "string \<Rightarrow> ParsedRatingKey option" where
  "seasonTypeForm ratingKey =
     (case regex_match seasonTypeRe ratingKey of
        Some [a, b, t] \<Rightarrow> Some \<lparr>parsed_type = TypeSeason, parsed_seriesId = parseInt a,
          parsed_seasonNumber = Some (parseInt b), parsed_episodeNumber = None,
          parsed_seasonType = Some t\<rparr>
      | _ \<Rightarrow> None)"

definition seasonForm :: "string \<Rightarrow> ParsedRatingKey option" where
  "seasonForm ratingKey =
     (case regex_match seasonRe ratingKey of
        Some [a, b] \<Rightarrow> Some \<lparr>parsed_type = TypeSeason, parsed_seriesId = parseInt a,
          parsed_seasonNumber = Some (parseInt b), parsed_episodeNumber = None,
          parsed_seasonType = None\<rparr>
      | _ \<Rightarrow> None)"

definition episodeTypeForm :: "string \<Rightarrow> ParsedRatingKey option" where
  "episodeTypeForm ratingKey =
     (case regex_match episodeTypeRe ratingKey of
        Some [a, b, c, t] \<Rightarrow> Some \<lparr>parsed_type = TypeEpisode, parsed_seriesId = parseInt a,
          parsed_seasonNumber = Some (parseInt b), parsed_episodeNumber = Some (parseInt c),
          parsed_seasonType = Some t\<rparr>
      | _ \<Rightarrow> None)"

definition episodeForm :: "string \<Rightarrow> ParsedRatingKey option" where
  "episodeForm ratingKey =
     (case regex_match episodeRe ratingKey of
        Some [a, b, c] \<Rightarrow> Some \<lparr>parsed_type = TypeEpisode, parsed_seriesId = parseInt a,
          parsed_seasonNumber = Some (parseInt b), parsed_episodeNumber = Some (parseInt c),
          parsed_seasonType = None\<rparr>
      | _ \<Rightarrow> None)"

fun first_match ::
  "(string \<Rightarrow> ParsedRatingKey option) list \<Rightarrow> string \<Rightarrow> ParsedRatingKey option" where
  "first_match [] s = None"
| "first_match (f # fs) s = (case f s of Some r \<Rightarrow> Some r | None \<Rightarrow> first_match fs s)"

definition decode_forms :: "(string \<Rightarrow> ParsedRatingKey option) list" where
  "decode_forms = [showForm, seasonTypeForm, seasonForm, episodeTypeForm, episodeForm]"

definition parseRatingKey :: "string \<Rightarrow> ParsedRatingKey option" where
  "parseRatingKey ratingKey = first_match decode_forms ratingKey"

subsection \<open>Encoders\<close>

text \<open>
  The mapper builds the identifiers with template literals:
  \<open>`tvdb-show-${series.id}`\<close>, \<open>`tvdb-season-${seriesId}-${season.number}`\<close> and
  \<open>`tvdb-episode-${seriesId}-${episode.seasonNumber}-${episode.number}`\<close>. The three
  encoders below give these strings when the tag is absent.
\<close>

text \<open>
  Modelled from the spec: the optional trailing \<open>-{seasonTag}\<close> of \<open>encodeSeason\<close> and
  \<open>encodeEpisode\<close> (section 4.1). No function of the source appends a tag to an
  identifier.
\<close>

definition tag_suffix :: "string option \<Rightarrow> string" where
  "tag_suffix tag = (case tag of None \<Rightarrow> [] | Some t \<Rightarrow> ''-'' @ t)"

definition encodeShow :: "int \<Rightarrow> string" where
  "encodeShow sid = ''tvdb-show-'' @ number_toString sid"

definition encodeSeason :: "int \<Rightarrow> int \<Rightarrow> string option \<Rightarrow> string" where
  "encodeSeason sid n tag =
     ''tvdb-season-'' @ number_toString sid @ ''-'' @ number_toString n @ tag_suffix tag"

definition encodeEpisode :: "int \<Rightarrow> int \<Rightarrow> int \<Rightarrow> string option \<Rightarrow> string" where
  "encodeEpisode sid n e tag =
     ''tvdb-episode-'' @ number_toString sid @ ''-'' @ number_toString n @ ''-'' @
       number_toString e @ tag_suffix tag"

text \<open>An ordering tag is absent or a word the tagged patterns accept, \<open>[a-z]+\<close>.\<close>

definition valid_tag :: "string option \<Rightarrow> bool" where
  "valid_tag tag = (case tag of None \<Rightarrow> True | Some t \<Rightarrow> t \<noteq> [] \<and> list_all is_lower t)"

section \<open>Upstream records\<close>

text \<open>
  The records of the upstream catalog (\<open>types/tvdb\<close>), with the fields the mapper and
  the service read. Field names carry the record's name as a prefix where two records
  of the source share a field name.
\<close>

record TVDBArtwork =
  artwork_type :: int
  artwork_image :: string

text \<open>The members of the enums \<open>TVDBArtworkType\<close> and \<open>TVDBRemoteIdType\<close> that the mapper uses.\<close>

definition BANNER :: int where "BANNER = 1"
definition POSTER :: int where "POSTER = 2"
definition BACKGROUND :: int where "BACKGROUND = 3"
definition CLEARLOGO :: int where "CLEARLOGO = 7"
definition IMDB :: int where "IMDB = 2"
definition TMDB :: int where "TMDB = 12"

record TVDBGenre =
  genre_name :: string

record TVDBCompany =
  company_id :: int
  company_name :: string

record TVDBCharacter =
  character_name :: string
  character_type :: int
  character_sort :: int
  personName :: string
  personImgURL :: "string option"

record TVDBRemoteId =
  remote_id :: string
  remote_type :: int

record TVDBContentRating =
  rating_name :: string
  rating_country :: "string option"

record TVDBSeasonType =
  seasonType_id :: int
  seasonType_name :: string
  seasonType_type :: string
  alternateName :: "string option"

record TVDBEpisode =
  episode_id :: int
  episode_name :: "string option"
  aired :: "string option"
  runtime :: "int option"
  episode_overview :: "string option"
  episode_image :: "string option"
  episode_number :: int
  episode_seasonNumber :: int
  episode_characters :: "TVDBCharacter list option"
  episode_remoteIds :: "TVDBRemoteId list option"

text \<open>\<open>TVDBSeason | TVDBSeasonExtended\<close>: the two fields of the extension are optional.\<close>

record TVDBSeason =
  season_id :: int
  season_type :: TVDBSeasonType
  season_name :: "string option"
  season_number :: int
  season_image :: "string option"
  artwork :: "TVDBArtwork list option"
  episodes :: "TVDBEpisode list option"

record TVDBSeries =
  series_id :: int
  series_name :: string
  series_image :: "string option"
  firstAired :: "string option"
  score :: int
  originalCountry :: "string option"
  averageRuntime :: "int option"
  series_overview :: "string option"
  artworks :: "TVDBArtwork list option"
  companies :: "TVDBCompany list option"
  originalNetwork :: "TVDBCompany option"
  latestNetwork :: "TVDBCompany option"
  genres :: "TVDBGenre list option"
  series_remoteIds :: "TVDBRemoteId list option"
  series_characters :: "TVDBCharacter list option"
  seasons :: "TVDBSeason list option"
  contentRatings :: "TVDBContentRating list option"
  seasonTypes :: "TVDBSeasonType list option"

section \<open>Output records\<close>

text \<open>
  The normalized entities (\<open>models/Metadata\<close>), with the fields the mapper sets. An
  object with the single field \<open>tag\<close> (Genre, Network, Country, Studio) or \<open>id\<close>
  (Guid) is modelled by the string it holds. The field \<open>year\<close> is left out: the
  mapper computes it with \<open>new Date(...).getFullYear()\<close>, which depends on the
  date parser and the time zone of the host.
\<close>

record Image =
  image_type :: string
  url :: string
  alt :: string

record Person =
  tag :: string
  role :: "string option"
  order :: "int option"
  person_thumb :: "string option"

record Rating =
  rating_image :: string
  rating_type :: string
  rating_value :: int

record SeasonType =
  st_id :: string
  st_source :: string
  st_tag :: string
  st_title :: string

record EpisodeMetadata =
  em_type :: string
  em_ratingKey :: string
  em_key :: string
  em_guid :: string
  em_title :: string
  em_originallyAvailableAt :: string
  em_summary :: "string option"
  em_thumb :: "string option"
  em_duration :: "int option"
  em_index :: int
  em_parentIndex :: int
  em_parentRatingKey :: string
  em_parentKey :: string
  em_parentGuid :: string
  em_parentType :: string
  em_parentTitle :: string
  em_parentThumb :: "string option"
  em_grandparentRatingKey :: string
  em_grandparentKey :: string
  em_grandparentGuid :: string
  em_grandparentType :: string
  em_grandparentTitle :: string
  em_grandparentThumb :: "string option"
  em_Image :: "Image list option"
  em_Guid :: "string list"
  em_Role :: "Person list option"
  em_Director :: "Person list option"
  em_Producer :: "Person list option"
  em_Writer :: "Person list option"

text \<open>A children container \<open>{size, Metadata}\<close> is the pair of its two fields.\<close>

record SeasonMetadata =
  sm_type :: string
  sm_ratingKey :: string
  sm_key :: string
  sm_guid :: string
  sm_title :: string
  sm_originallyAvailableAt :: string
  sm_index :: int
  sm_parentRatingKey :: string
  sm_parentKey :: string
  sm_parentGuid :: string
  sm_parentType :: string
  sm_parentTitle :: string
  sm_parentThumb :: "string option"
  sm_thumb :: "string option"
  sm_Guid :: "string list"
  sm_Image :: "Image list option"
  sm_Children :: "(int \<times> EpisodeMetadata list) option"

record ShowMetadata =
  show_type :: string
  show_ratingKey :: string
  show_key :: string
  show_guid :: string
  show_title :: string
  show_originallyAvailableAt :: string
  show_summary :: "string option"
  show_thumb :: "string option"
  show_art :: "string option"
  show_contentRating :: "string option"
  show_duration :: "int option"
  show_studio :: "string option"
  show_Image :: "Image list option"
  show_Genre :: "string list option"
  show_Guid :: "string list option"
  show_Country :: "string list option"
  show_Role :: "Person list option"
  show_Director :: "Person list option"
  show_Producer :: "Person list option"
  show_Writer :: "Person list option"
  show_Studio :: "string list option"
  show_Rating :: "Rating list option"
  show_Network :: "string list option"
  show_SeasonType :: "SeasonType list option"
  show_Children :: "(int \<times> SeasonMetadata list) option"

section \<open>Helpers of the language and of utils/guid\<close>

text \<open>\<open>x || undefined\<close> on a string that may be \<open>null\<close>: the empty string is falsy.\<close>

definition or_undefined :: "string option \<Rightarrow> string option" where
  "or_undefined x = (case x of None \<Rightarrow> None | Some s \<Rightarrow> if s = [] then None else Some s)"

text \<open>\<open>x || d\<close> on a string that may be \<open>null\<close>.\<close>

definition or_else :: "string option \<Rightarrow> string \<Rightarrow> string" where
  "or_else x d = (case or_undefined x of None \<Rightarrow> d | Some s \<Rightarrow> s)"

text \<open>\<open>toUpperCase\<close> and \<open>toLowerCase\<close>, on the ASCII letters.\<close>

definition upper_char :: "char \<Rightarrow> char" where
  "upper_char c =
     (case map_of (zip ''abcdefghijklmnopqrstuvwxyz'' ''ABCDEFGHIJKLMNOPQRSTUVWXYZ'') c of
        None \<Rightarrow> c | Some u \<Rightarrow> u)"

definition lower_char :: "char \<Rightarrow> char" where
  "lower_char c =
     (case map_of (zip ''ABCDEFGHIJKLMNOPQRSTUVWXYZ'' ''abcdefghijklmnopqrstuvwxyz'') c of
        None \<Rightarrow> c | Some l \<Rightarrow> l)"

definition toUpperCase :: "string \<Rightarrow> string" where
  "toUpperCase s = map upper_char s"

definition toLowerCase :: "string \<Rightarrow> string" where
  "toLowerCase s = map lower_char s"

text \<open>
  \<open>Array.prototype.sort\<close> with a comparator: a stable sort, by insertion from the
  right; an element goes before the elements that do not compare below it.
\<close>

fun insert_by :: "('a \<Rightarrow> 'a \<Rightarrow> int) \<Rightarrow> 'a \<Rightarrow> 'a list \<Rightarrow> 'a list" where
  "insert_by cmp x [] = [x]"
| "insert_by cmp x (y # ys) = (if cmp x y \<le> 0 then x # y # ys else y # insert_by cmp x ys)"

definition array_sort :: "('a \<Rightarrow> 'a \<Rightarrow> int) \<Rightarrow> 'a list \<Rightarrow> 'a list" where
  "array_sort cmp xs = foldr (insert_by cmp) xs []"

text \<open>\<open>Array.prototype.map\<close> with the callback's second argument, the index.\<close>

fun map_index_from :: "int \<Rightarrow> ('a \<Rightarrow> int \<Rightarrow> 'b) \<Rightarrow> 'a list \<Rightarrow> 'b list" where
  "map_index_from i f [] = []"
| "map_index_from i f (x # xs) = f x i # map_index_from (i + 1) f xs"

definition map_index :: "('a \<Rightarrow> int \<Rightarrow> 'b) \<Rightarrow> 'a list \<Rightarrow> 'b list" where
  "map_index f xs = map_index_from 0 f xs"

text \<open>
  \<open>Array.prototype.slice(start, end)\<close> on integers: a negative index counts from the
  end, both indices are clamped to the array.
\<close>

definition slice :: "'a list \<Rightarrow> int \<Rightarrow> int \<Rightarrow> 'a list" where
  "slice xs start fin =
     (let len = int (length xs);
          k = (if start < 0 then max (len + start) 0 else min start len);
          final = (if fin < 0 then max (len + fin) 0 else min fin len)
      in take (nat (final - k)) (drop (nat k) xs))"

definition TV_PROVIDER_IDENTIFIER :: string where
  "TV_PROVIDER_IDENTIFIER = ''tv.plex.agents.custom.example.thetvdb.tv''"

text \<open>
  Modelled from the spec: the functions of \<open>utils/guid\<close>, which is not among the
  sources. \<open>constructGuid\<close> is \<open>buildUri\<close> of section 4.1,
  \<open>{scheme}://{entityTypeWord}/{identifier}\<close>; the external id is the source tag,
  \<open>://\<close> and the id (\<open>tvdb://\<close>, \<open>imdb://\<close>, \<open>tmdb://\<close> entries of section 4.2); the
  two keys are the paths the mapper's tests expect, \<open>/library/metadata/{ratingKey}\<close>
  and the same followed by \<open>/children\<close>.
\<close>

definition constructGuid :: "string \<Rightarrow> string \<Rightarrow> string \<Rightarrow> string" where
  "constructGuid scheme typeWord ratingKey = scheme @ ''://'' @ typeWord @ ''/'' @ ratingKey"

definition constructMetadataKey :: "string \<Rightarrow> string" where
  "constructMetadataKey ratingKey = ''/library/metadata/'' @ ratingKey"

definition constructMetadataKeyWithChildren :: "string \<Rightarrow> string" where
  "constructMetadataKeyWithChildren ratingKey = ''/library/metadata/'' @ ratingKey @ ''/children''"

definition createExternalGuid :: "string \<Rightarrow> string \<Rightarrow> string" where
  "createExternalGuid source ident = source @ ''://'' @ ident"

section \<open>Entity mapper\<close>

definition image_of :: "string \<Rightarrow> string \<Rightarrow> TVDBArtwork option \<Rightarrow> Image list" where
  "image_of ty title a =
     (case a of None \<Rightarrow> []
      | Some x \<Rightarrow> [\<lparr>image_type = ty, url = artwork_image x, alt = title\<rparr>])"

definition mapImages :: "TVDBArtwork list option \<Rightarrow> string \<Rightarrow> Image list option" where
  "mapImages arts title =
     (case arts of None \<Rightarrow> None
      | Some as \<Rightarrow>
          if as = [] then None
          else
            let poster = find (\<lambda>a. artwork_type a = POSTER) as;
                background = find (\<lambda>a. artwork_type a = BACKGROUND) as;
                clearLogo = find (\<lambda>a. artwork_type a = CLEARLOGO) as;
                images = image_of ''coverPoster'' title poster @
                         image_of ''background'' title background @
                         image_of ''clearLogo'' title clearLogo @
                         (if background = None
                          then image_of ''background'' title (find (\<lambda>a. artwork_type a = BANNER) as)
                          else [])
            in if images \<noteq> [] then Some images else None)"

definition mapGenres :: "TVDBSeries \<Rightarrow> string list option" where
  "mapGenres series =
     (case genres series of None \<Rightarrow> None
      | Some gs \<Rightarrow> if gs = [] then None else Some (map genre_name gs))"

definition remote_guid :: "string \<Rightarrow> int \<Rightarrow> TVDBRemoteId list \<Rightarrow> string list" where
  "remote_guid source ty rs =
     (case find (\<lambda>r. remote_type r = ty) rs of None \<Rightarrow> []
      | Some r \<Rightarrow> [createExternalGuid source (remote_id r)])"

definition mapExternalGuids :: "TVDBSeries \<Rightarrow> string list option" where
  "mapExternalGuids series =
     (let guids = [createExternalGuid ''tvdb'' (number_toString (series_id series))] @
                  (case series_remoteIds series of None \<Rightarrow> []
                   | Some rs \<Rightarrow> remote_guid ''imdb'' IMDB rs @ remote_guid ''tmdb'' TMDB rs)
      in if guids \<noteq> [] then Some guids else None)"

definition mapCast :: "TVDBCharacter list option \<Rightarrow> Person list option" where
  "mapCast characters =
     (case characters of None \<Rightarrow> None
      | Some cs \<Rightarrow>
          if cs = [] then None
          else
            let actors = array_sort (\<lambda>a b. character_sort a - character_sort b)
                           (filter (\<lambda>c. character_type c = 3) cs)
            in Some (map_index
                 (\<lambda>member index. \<lparr>tag = personName member, role = Some (character_name member),
                    order = Some (index + 1), person_thumb = or_undefined (personImgURL member)\<rparr>)
                 (slice actors 0 1000)))"

record Crew =
  Director :: "Person list option"
  Producer :: "Person list option"
  Writer :: "Person list option"

definition crew_person :: "TVDBCharacter \<Rightarrow> Person" where
  "crew_person member =
     \<lparr>tag = personName member, role = None, order = None,
      person_thumb = or_undefined (personImgURL member)\<rparr>"

definition crew_bucket :: "int \<Rightarrow> TVDBCharacter list \<Rightarrow> Person list option" where
  "crew_bucket ty cs =
     (let ps = map crew_person (filter (\<lambda>c. character_type c = ty) cs)
      in if ps \<noteq> [] then Some ps else None)"

definition mapCrew :: "TVDBCharacter list option \<Rightarrow> Crew" where
  "mapCrew characters =
     (case characters of None \<Rightarrow> \<lparr>Director = None, Producer = None, Writer = None\<rparr>
      | Some cs \<Rightarrow>
          if cs = [] then \<lparr>Director = None, Producer = None, Writer = None\<rparr>
          else \<lparr>Director = crew_bucket 1 cs, Producer = crew_bucket 4 cs, Writer = crew_bucket 2 cs\<rparr>)"

definition mapRatings :: "TVDBSeries \<Rightarrow> Rating list option" where
  "mapRatings series =
     (if score series \<noteq> 0 \<and> score series > 0
      then Some [\<lparr>rating_image = ''thetvdb://image.rating'', rating_type = ''audience'',
                  rating_value = score series\<rparr>]
      else None)"

definition mapNetworks :: "TVDBSeries \<Rightarrow> string list option" where
  "mapNetworks series =
     (let networks =
            (case originalNetwork series of None \<Rightarrow> [] | Some n \<Rightarrow> [company_name n]) @
            (case latestNetwork series of None \<Rightarrow> []
             | Some l \<Rightarrow>
                 if Some (company_id l) \<noteq> map_option company_id (originalNetwork series)
                 then [company_name l] else [])
      in if networks \<noteq> [] then Some networks else None)"

definition mapCountries :: "TVDBSeries \<Rightarrow> string list option" where
  "mapCountries series =
     (case or_undefined (originalCountry series) of None \<Rightarrow> None | Some c \<Rightarrow> Some [c])"

definition mapStudios :: "TVDBSeries \<Rightarrow> string list option" where
  "mapStudios series =
     (case companies series of None \<Rightarrow> None
      | Some cs \<Rightarrow> if cs = [] then None else Some (map company_name cs))"

text \<open>
  \<open>getContentRating(series, country = 'US')\<close>: the second argument is \<open>None\<close> when
  the caller passes \<open>undefined\<close>, and the default value of the parameter applies.
\<close>

definition getContentRating :: "TVDBSeries \<Rightarrow> string option \<Rightarrow> string option" where
  "getContentRating series country_arg =
     (let country = (case country_arg of None \<Rightarrow> ''US'' | Some c \<Rightarrow> c) in
      case contentRatings series of None \<Rightarrow> None
      | Some ratings \<Rightarrow>
          let normalizedCountry = toUpperCase country;
              isUS = (normalizedCountry = ''US'' \<or> normalizedCountry = ''USA'');
              rating = find (\<lambda>r.
                  map_option toUpperCase (rating_country r) = Some normalizedCountry \<or>
                  (isUS \<and> map_option toUpperCase (rating_country r) = Some ''USA'') \<or>
                  (isUS \<and> map_option toUpperCase (rating_country r) = Some ''US'')) ratings
          in case rating of None \<Rightarrow> None
             | Some r \<Rightarrow>
                 Some (if isUS then rating_name r
                       else or_else (map_option toLowerCase (rating_country r)) (toLowerCase country)
                              @ ''/'' @ rating_name r))"

text \<open>
  The content rating resolution in the words of the specification (section 4.2), to be
  compared with \<open>getContentRating\<close>: an entry matches when its country code in upper
  case equals the requested country in upper case, \<open>US\<close> and \<open>USA\<close> being
  interchangeable; a US-equivalent request gives the bare rating name, any other the
  lower-case country code, a slash and the rating name; no match gives nothing.
\<close>

definition us_equivalent :: "string \<Rightarrow> bool" where
  "us_equivalent c = (toUpperCase c = ''US'' \<or> toUpperCase c = ''USA'')"

definition rating_matches :: "string \<Rightarrow> TVDBContentRating \<Rightarrow> bool" where
  "rating_matches country r =
     (case rating_country r of None \<Rightarrow> False
      | Some c \<Rightarrow> toUpperCase c = toUpperCase country \<or> (us_equivalent country \<and> us_equivalent c))"

definition resolveContentRating :: "TVDBContentRating list \<Rightarrow> string \<Rightarrow> string option" where
  "resolveContentRating ratings country =
     (case find (rating_matches country) ratings of None \<Rightarrow> None
      | Some r \<Rightarrow>
          Some (if us_equivalent country then rating_name r
                else toLowerCase country @ ''/'' @ rating_name r))"

definition mapSeasonTypes :: "TVDBSeasonType list option \<Rightarrow> SeasonType list option" where
  "mapSeasonTypes sts =
     (case sts of None \<Rightarrow> None
      | Some ts \<Rightarrow>
          if ts = [] then None
          else Some (map (\<lambda>st. \<lparr>st_id = number_toString (seasonType_id st), st_source = ''tvdb'',
                 st_tag = seasonType_name st,
                 st_title = or_else (alternateName st) (seasonType_name st)\<rparr>) ts))"

definition typeMap :: "(string \<times> string) list" where
  "typeMap = [(''default'', ''default''), (''official'', ''default''), (''dvd'', ''dvd''),
     (''absolute'', ''absolute''), (''alternate'', ''alternate''), (''regional'', ''regional'')]"

definition getSeasonTypeShortTag :: "TVDBSeasonType option \<Rightarrow> string" where
  "getSeasonTypeShortTag seasonType =
     (case seasonType of None \<Rightarrow> ''default''
      | Some st \<Rightarrow>
          or_else (map_of typeMap (toLowerCase (seasonType_type st)))
            (toLowerCase (seasonType_type st)))"

definition mapEpisode ::
  "TVDBEpisode \<Rightarrow> int \<Rightarrow> string \<Rightarrow> string \<Rightarrow> string \<Rightarrow> string \<Rightarrow> string option \<Rightarrow> string option
     \<Rightarrow> EpisodeMetadata" where
  "mapEpisode episode seriesId showTitle showGuid seasonTitle seasonGuid showThumb seasonThumb =
     (let ratingKey = ''tvdb-episode-'' @ number_toString seriesId @ ''-'' @
            number_toString (episode_seasonNumber episode) @ ''-'' @
            number_toString (episode_number episode);
          parentRatingKey = ''tvdb-season-'' @ number_toString seriesId @ ''-'' @
            number_toString (episode_seasonNumber episode);
          grandparentRatingKey = ''tvdb-show-'' @ number_toString seriesId;
          crew = mapCrew (episode_characters episode);
          title = or_else (episode_name episode)
            (''Episode '' @ number_toString (episode_number episode))
      in \<lparr>em_type = ''episode'',
          em_ratingKey = ratingKey,
          em_key = constructMetadataKey ratingKey,
          em_guid = constructGuid TV_PROVIDER_IDENTIFIER ''episode'' ratingKey,
          em_title = title,
          em_originallyAvailableAt = or_else (aired episode) [],
          em_summary = or_undefined (episode_overview episode),
          em_thumb = or_undefined (episode_image episode),
          em_duration = (case runtime episode of None \<Rightarrow> None
             | Some r \<Rightarrow> if r \<noteq> 0 then Some (r * 60 * 1000) else None),
          em_index = episode_number episode,
          em_parentIndex = episode_seasonNumber episode,
          em_parentRatingKey = parentRatingKey,
          em_parentKey = constructMetadataKey parentRatingKey,
          em_parentGuid = seasonGuid,
          em_parentType = ''season'',
          em_parentTitle = seasonTitle,
          em_parentThumb = seasonThumb,
          em_grandparentRatingKey = grandparentRatingKey,
          em_grandparentKey = constructMetadataKey grandparentRatingKey,
          em_grandparentGuid = showGuid,
          em_grandparentType = ''show'',
          em_grandparentTitle = showTitle,
          em_grandparentThumb = showThumb,
          em_Image = (case or_undefined (episode_image episode) of None \<Rightarrow> None
             | Some img \<Rightarrow> Some [\<lparr>image_type = ''snapshot'', url = img, alt = title\<rparr>]),
          em_Guid = [createExternalGuid ''tvdb'' (number_toString (episode_id episode))] @
             (case episode_remoteIds episode of None \<Rightarrow> []
              | Some rs \<Rightarrow> remote_guid ''imdb'' IMDB rs),
          em_Role = mapCast (episode_characters episode),
          em_Director = Director crew,
          em_Producer = Producer crew,
          em_Writer = Writer crew\<rparr>)"

text \<open>
  \<open>mapSeason\<close>. The last argument is \<open>options?.includeChildren\<close>, \<open>False\<close> when the
  caller passes no options. The source computes \<open>seasonTypeShort\<close> first and does
  not use it afterwards; the binding is kept.
\<close>

definition mapSeason ::
  "TVDBSeason \<Rightarrow> int \<Rightarrow> string \<Rightarrow> string \<Rightarrow> string option \<Rightarrow> bool \<Rightarrow> SeasonMetadata" where
  "mapSeason season seriesId showTitle showGuid showThumb includeChildren =
     (let seasonTypeShort = getSeasonTypeShortTag (Some (season_type season));
          ratingKey = ''tvdb-season-'' @ number_toString seriesId @ ''-'' @
            number_toString (season_number season);
          parentRatingKey = ''tvdb-show-'' @ number_toString seriesId;
          title = or_else (season_name season)
            (''Season '' @ number_toString (season_number season));
          guid = constructGuid TV_PROVIDER_IDENTIFIER ''season'' ratingKey;
          poster = (case or_undefined (season_image season) of None \<Rightarrow> None
             | Some img \<Rightarrow> Some [\<lparr>image_type = ''coverPoster'', url = img, alt = title\<rparr>])
      in \<lparr>sm_type = ''season'',
          sm_ratingKey = ratingKey,
          sm_key = constructMetadataKeyWithChildren ratingKey,
          sm_guid = guid,
          sm_title = title,
          sm_originallyAvailableAt = [],
          sm_index = season_number season,
          sm_parentRatingKey = parentRatingKey,
          sm_parentKey = constructMetadataKey parentRatingKey,
          sm_parentGuid = showGuid,
          sm_parentType = ''show'',
          sm_parentTitle = showTitle,
          sm_parentThumb = showThumb,
          sm_thumb = or_undefined (season_image season),
          sm_Guid = [createExternalGuid ''tvdb'' (number_toString (season_id season))],
          sm_Image = (case artwork season of None \<Rightarrow> poster
             | Some as \<Rightarrow> if as \<noteq> [] then mapImages (Some as) title else poster),
          sm_Children = (case episodes season of None \<Rightarrow> None
             | Some es \<Rightarrow>
                 if includeChildren \<and> es \<noteq> []
                 then Some (int (length es),
                   map (\<lambda>episode. mapEpisode episode seriesId showTitle showGuid title guid
                          showThumb (or_undefined (season_image season))) es)
                 else None)\<rparr>)"

text \<open>
  \<open>mapSeries(series, options?)\<close>: the two fields of \<open>options\<close> are arguments,
  \<open>includeChildren\<close> as its truth value and \<open>country\<close> as \<open>None\<close> when it is absent.
\<close>

definition mapSeries :: "TVDBSeries \<Rightarrow> bool \<Rightarrow> string option \<Rightarrow> ShowMetadata" where
  "mapSeries series includeChildren country =
     (let ratingKey = ''tvdb-show-'' @ number_toString (series_id series);
          crew = mapCrew (series_characters series);
          guid = constructGuid TV_PROVIDER_IDENTIFIER ''show'' ratingKey
      in \<lparr>show_type = ''show'',
          show_ratingKey = ratingKey,
          show_key = constructMetadataKeyWithChildren ratingKey,
          show_guid = guid,
          show_title = series_name series,
          show_originallyAvailableAt = or_else (firstAired series) [],
          show_summary = or_undefined (series_overview series),
          show_thumb = or_undefined (series_image series),
          show_art = (case artworks series of None \<Rightarrow> None
             | Some as \<Rightarrow> map_option artwork_image (find (\<lambda>a. artwork_type a = BACKGROUND) as)),
          show_contentRating = getContentRating series country,
          show_duration = (case averageRuntime series of None \<Rightarrow> None
             | Some r \<Rightarrow> if r \<noteq> 0 then Some (r * 60 * 1000) else None),
          show_studio = map_option company_name (originalNetwork series),
          show_Image = mapImages (artworks series) (series_name series),
          show_Genre = mapGenres series,
          show_Guid = mapExternalGuids series,
          show_Country = mapCountries series,
          show_Role = mapCast (series_characters series),
          show_Director = Director crew,
          show_Producer = Producer crew,
          show_Writer = Writer crew,
          show_Studio = mapStudios series,
          show_Rating = mapRatings series,
          show_Network = mapNetworks series,
          show_SeasonType = mapSeasonTypes (seasonTypes series),
          show_Children = (case seasons series of None \<Rightarrow> None
             | Some ss \<Rightarrow>
                 if includeChildren \<and> ss \<noteq> []
                 then
                   let seasonMetadata =
                         map (\<lambda>season. mapSeason season (series_id series) (series_name series)
                                guid (or_undefined (series_image series)) False)
                           (filter (\<lambda>season. seasonType_type (season_type season) = ''default'' \<or>
                                      seasonType_type (season_type season) = ''official'') ss)
                   in Some (int (length seasonMetadata), seasonMetadata)
                 else None)\<rparr>)"

section \<open>Metadata service\<close>

text \<open>
  An exception is a value: \<open>throw new Error(message)\<close> is \<open>Inl (Error message)\<close>,
  and a function that may throw returns \<open>error + 'a\<close>. The upstream client
  (\<open>TVDBClient\<close>, not among the sources) is a record of the calls the service makes;
  each call returns its record or rejects with an error, and the lookups by number
  return \<open>None\<close> where the client returns \<open>null\<close> or \<open>undefined\<close>.
\<close>

datatype error = Error string

record TVDBClient =
  getSeriesDetails :: "int \<Rightarrow> error + TVDBSeries"
  getSeasonByNumber :: "int \<Rightarrow> int \<Rightarrow> string \<Rightarrow> error + TVDBSeason option"
  getSeasonDetails :: "int \<Rightarrow> error + TVDBSeason"
  getEpisodeByNumber :: "int \<Rightarrow> int \<Rightarrow> int \<Rightarrow> string \<Rightarrow> error + TVDBEpisode option"
  getEpisodeDetails :: "int \<Rightarrow> error + TVDBEpisode"

record MetadataServiceOptions =
  opt_country :: "string option"
  opt_includeChildren :: "bool option"

record PagingOptions =
  paging_containerSize :: "int option"
  paging_containerStart :: "int option"

datatype Metadata = Show ShowMetadata | Season SeasonMetadata | Episode EpisodeMetadata

record MediaContainer =
  offset :: int
  totalSize :: int
  container_identifier :: string
  container_size :: int
  container_Metadata :: "Metadata list"

text \<open>
  What a caller can inspect of a caught \<open>Error\<close> is its message. The two tests below
  read the fixed text a message starts with.
\<close>

fun message :: "error \<Rightarrow> string" where
  "message (Error m) = m"

definition invalid_identifier :: "error \<Rightarrow> bool" where
  "invalid_identifier e = (take 26 (message e) = ''Invalid ratingKey format: '')"

definition not_found :: "error \<Rightarrow> bool" where
  "not_found e = (take 7 (message e) = ''Season '' \<or> take 9 (message e) = ''Episode S'')"

text \<open>The truth value of an optional boolean: \<open>undefined\<close> is falsy.\<close>

definition truthy :: "bool option \<Rightarrow> bool" where
  "truthy b = (case b of None \<Rightarrow> False | Some v \<Rightarrow> v)"

text \<open>\<open>x ?? d\<close> on an optional number.\<close>

definition nullish :: "int option \<Rightarrow> int \<Rightarrow> int" where
  "nullish x d = (case x of None \<Rightarrow> d | Some v \<Rightarrow> v)"

definition single_item :: "Metadata \<Rightarrow> MediaContainer" where
  "single_item m =
     \<lparr>offset = 0, totalSize = 1, container_identifier = TV_PROVIDER_IDENTIFIER, container_size = 1,
      container_Metadata = [m]\<rparr>"

definition show_guid_of :: "int \<Rightarrow> string" where
  "show_guid_of sid = TV_PROVIDER_IDENTIFIER @ ''://show/tvdb-show-'' @ number_toString sid"

definition season_guid_of :: "int \<Rightarrow> int \<Rightarrow> string" where
  "season_guid_of sid n =
     TV_PROVIDER_IDENTIFIER @ ''://season/tvdb-season-'' @ number_toString sid @ ''-'' @
       number_toString n"

definition getShow :: "TVDBClient \<Rightarrow> int \<Rightarrow> MetadataServiceOptions \<Rightarrow> error + MediaContainer" where
  "getShow client sid options =
     (case getSeriesDetails client sid of Inl e \<Rightarrow> Inl e
      | Inr seriesDetails \<Rightarrow>
          Inr (single_item (Show (mapSeries seriesDetails (truthy (opt_includeChildren options))
                 (opt_country options)))))"

definition getSeason ::
  "TVDBClient \<Rightarrow> int \<Rightarrow> int \<Rightarrow> MetadataServiceOptions \<Rightarrow> string option \<Rightarrow> error + MediaContainer" where
  "getSeason client sid n options ty =
     (case getSeriesDetails client sid of Inl e \<Rightarrow> Inl e
      | Inr seriesDetails \<Rightarrow>
          (case getSeasonByNumber client sid n (or_else ty ''default'') of Inl e \<Rightarrow> Inl e
           | Inr None \<Rightarrow>
               Inl (Error (''Season '' @ number_toString n @ '' not found for series '' @
                      number_toString sid))
           | Inr (Some season) \<Rightarrow>
               (case (if truthy (opt_includeChildren options)
                      then getSeasonDetails client (season_id season) else Inr season) of
                  Inl e \<Rightarrow> Inl e
                | Inr seasonDetails \<Rightarrow>
                    Inr (single_item (Season (mapSeason seasonDetails sid
                           (series_name seriesDetails) (show_guid_of sid)
                           (or_undefined (series_image seriesDetails))
                           (truthy (opt_includeChildren options))))))))"

definition getEpisode ::
  "TVDBClient \<Rightarrow> int \<Rightarrow> int \<Rightarrow> int \<Rightarrow> MetadataServiceOptions \<Rightarrow> string option
     \<Rightarrow> error + MediaContainer" where
  "getEpisode client sid n e options ty =
     (case getSeriesDetails client sid of Inl err \<Rightarrow> Inl err
      | Inr seriesDetails \<Rightarrow>
          (case getEpisodeByNumber client sid n e (or_else ty ''default'') of Inl err \<Rightarrow> Inl err
           | Inr None \<Rightarrow>
               Inl (Error (''Episode S'' @ number_toString n @ ''E'' @ number_toString e @
                      '' not found for series '' @ number_toString sid))
           | Inr (Some episode) \<Rightarrow>
               (case getEpisodeDetails client (episode_id episode) of Inl err \<Rightarrow> Inl err
                | Inr episodeDetails \<Rightarrow>
                    Inr (single_item (Episode (mapEpisode episodeDetails sid
                           (series_name seriesDetails) (show_guid_of sid)
                           (''Season '' @ number_toString n) (season_guid_of sid n)
                           (or_undefined (series_image seriesDetails)) None))))))"

definition getMetadata ::
  "TVDBClient \<Rightarrow> string \<Rightarrow> MetadataServiceOptions \<Rightarrow> error + MediaContainer" where
  "getMetadata client ratingKey options =
     (case parseRatingKey ratingKey of
        None \<Rightarrow> Inl (Error (''Invalid ratingKey format: '' @ ratingKey))
      | Some parsed \<Rightarrow>
          (case parsed_type parsed of
             TypeShow \<Rightarrow> getShow client (parsed_seriesId parsed) options
           | TypeSeason \<Rightarrow>
               (case parsed_seasonNumber parsed of
                  None \<Rightarrow> Inl (Error (''Invalid season ratingKey: '' @ ratingKey))
                | Some n \<Rightarrow>
                    getSeason client (parsed_seriesId parsed) n options (parsed_seasonType parsed))
           | TypeEpisode \<Rightarrow>
               (case (parsed_seasonNumber parsed, parsed_episodeNumber parsed) of
                  (Some n, Some e) \<Rightarrow>
                    getEpisode client (parsed_seriesId parsed) n e options
                      (parsed_seasonType parsed)
                | _ \<Rightarrow> Inl (Error (''Invalid episode ratingKey: '' @ ratingKey)))))"

text \<open>The paging of \<open>getChildren\<close>: \<open>containerStart\<close> is 1-based.\<close>

definition paged :: "Metadata list \<Rightarrow> PagingOptions \<Rightarrow> MediaContainer" where
  "paged allItems paging =
     (let containerSize = nullish (paging_containerSize paging) 20;
          containerStart = nullish (paging_containerStart paging) 1;
          startIndex = containerStart - 1;
          endIndex = startIndex + containerSize;
          pagedItems = slice allItems startIndex endIndex
      in \<lparr>offset = startIndex, totalSize = int (length allItems),
          container_identifier = TV_PROVIDER_IDENTIFIER, container_size = int (length pagedItems),
          container_Metadata = pagedItems\<rparr>)"

definition allSeasons :: "TVDBSeries \<Rightarrow> int \<Rightarrow> SeasonMetadata list" where
  "allSeasons seriesDetails sid =
     (case seasons seriesDetails of None \<Rightarrow> []
      | Some ss \<Rightarrow>
          map (\<lambda>season. mapSeason season sid (series_name seriesDetails) (show_guid_of sid)
                 (or_undefined (series_image seriesDetails)) False)
            (filter (\<lambda>s. season_number s \<ge> 0)
               (filter (\<lambda>s. seasonType_type (season_type s) = ''default'' \<or>
                          seasonType_type (season_type s) = ''official'') ss)))"

definition allEpisodes :: "TVDBSeries \<Rightarrow> TVDBSeason \<Rightarrow> TVDBSeason \<Rightarrow> int \<Rightarrow> int \<Rightarrow> EpisodeMetadata list" where
  "allEpisodes seriesDetails season seasonDetails sid n =
     (case episodes seasonDetails of None \<Rightarrow> []
      | Some es \<Rightarrow>
          map (\<lambda>episode. mapEpisode episode sid (series_name seriesDetails) (show_guid_of sid)
                 (or_else (season_name season) (''Season '' @ number_toString n))
                 (season_guid_of sid n) (or_undefined (series_image seriesDetails))
                 (or_undefined (season_image season))) es)"

definition getChildren ::
  "TVDBClient \<Rightarrow> string \<Rightarrow> MetadataServiceOptions \<Rightarrow> PagingOptions \<Rightarrow> error + MediaContainer" where
  "getChildren client ratingKey options paging =
     (case parseRatingKey ratingKey of
        None \<Rightarrow> Inl (Error (''Invalid ratingKey format: '' @ ratingKey))
      | Some parsed \<Rightarrow>
          (case parsed_type parsed of
             TypeShow \<Rightarrow>
               (case getSeriesDetails client (parsed_seriesId parsed) of Inl e \<Rightarrow> Inl e
                | Inr seriesDetails \<Rightarrow>
                    Inr (paged (map Season (allSeasons seriesDetails (parsed_seriesId parsed)))
                           paging))
           | TypeSeason \<Rightarrow>
               (case parsed_seasonNumber parsed of
                  None \<Rightarrow> Inl (Error (''Invalid season ratingKey: '' @ ratingKey))
                | Some n \<Rightarrow>
                    (case getSeriesDetails client (parsed_seriesId parsed) of Inl e \<Rightarrow> Inl e
                     | Inr seriesDetails \<Rightarrow>
                         (case getSeasonByNumber client (parsed_seriesId parsed) n
                                 (or_else (parsed_seasonType parsed) ''default'') of
                            Inl e \<Rightarrow> Inl e
                          | Inr None \<Rightarrow>
                              Inl (Error (''Season '' @ number_toString n @ '' not found''))
                          | Inr (Some season) \<Rightarrow>
                              (case getSeasonDetails client (season_id season) of
                                 Inl e \<Rightarrow> Inl e
                               | Inr seasonDetails \<Rightarrow>
                                   Inr (paged (map Episode (allEpisodes seriesDetails season
                                          seasonDetails (parsed_seriesId parsed) n)) paging)))))
           | TypeEpisode \<Rightarrow> Inl (Error (''Cannot get children for type: episode''))))"

section \<open>Sample records\<close>

text \<open>
  The series of the mapper's unit tests (\<open>mockTVDBSeries\<close>), and seasons of a given
  ordering type and number, for the concrete instances below.
\<close>

definition officialType :: TVDBSeasonType where
  "officialType =
     \<lparr>seasonType_id = 1, seasonType_name = ''Aired Order'', seasonType_type = ''official'',
      alternateName = None\<rparr>"

definition dvdType :: TVDBSeasonType where
  "dvdType =
     \<lparr>seasonType_id = 2, seasonType_name = ''DVD Order'', seasonType_type = ''dvd'',
      alternateName = None\<rparr>"

definition sampleSeason :: "TVDBSeasonType \<Rightarrow> int \<Rightarrow> TVDBSeason" where
  "sampleSeason ty n =
     \<lparr>season_id = 12345 + n, season_type = ty, season_name = None, season_number = n,
      season_image = None, artwork = None, episodes = None\<rparr>"

definition sampleCharacter :: "string \<Rightarrow> string \<Rightarrow> int \<Rightarrow> int \<Rightarrow> TVDBCharacter" where
  "sampleCharacter person name ty srt =
     \<lparr>character_name = name, character_type = ty, character_sort = srt, personName = person,
      personImgURL = None\<rparr>"

definition mockTVDBSeries :: TVDBSeries where
  "mockTVDBSeries =
     \<lparr>series_id = 152831,
      series_name = ''Adventure Time'',
      series_image = Some ''https://artworks.thetvdb.com/banners/posters/adventure-time.jpg'',
      firstAired = Some ''2010-04-05'',
      score = 8500,
      originalCountry = Some ''usa'',
      averageRuntime = Some 11,
      series_overview = Some ''Unlikely heroes Finn and Jake are buddies.'',
      artworks = Some [\<lparr>artwork_type = 2, artwork_image = ''https://artworks.thetvdb.com/poster.jpg''\<rparr>,
        \<lparr>artwork_type = 3, artwork_image = ''https://artworks.thetvdb.com/background.jpg''\<rparr>,
        \<lparr>artwork_type = 7, artwork_image = ''https://artworks.thetvdb.com/clearlogo.png''\<rparr>],
      companies = Some [\<lparr>company_id = 1, company_name = ''Frederator Studios''\<rparr>],
      originalNetwork = Some \<lparr>company_id = 56, company_name = ''Cartoon Network''\<rparr>,
      latestNetwork = Some \<lparr>company_id = 56, company_name = ''Cartoon Network''\<rparr>,
      genres = Some [\<lparr>genre_name = ''Animation''\<rparr>, \<lparr>genre_name = ''Comedy''\<rparr>],
      series_remoteIds = Some [\<lparr>remote_id = ''tt1305826'', remote_type = 2\<rparr>,
        \<lparr>remote_id = ''15260'', remote_type = 12\<rparr>],
      series_characters = Some [
        \<lparr>character_name = ''Finn the Human'', character_type = 3, character_sort = 0,
          personName = ''Jeremy Shada'',
          personImgURL = Some ''https://artworks.thetvdb.com/actor.jpg''\<rparr>,
        \<lparr>character_name = [], character_type = 1, character_sort = 0,
          personName = ''Larry Leichliter'', personImgURL = None\<rparr>],
      seasons = Some [],
      contentRatings = Some [\<lparr>rating_name = ''TV-PG'', rating_country = Some ''usa''\<rparr>],
      seasonTypes = Some [officialType, dvdType]\<rparr>"

text \<open>
  A client whose series call returns the given series and whose lookups by number find
  nothing, and a series with ten seasons of the official ordering and one of the DVD
  ordering.
\<close>

definition sampleClient :: "TVDBSeries \<Rightarrow> TVDBClient" where
  "sampleClient series =
     \<lparr>getSeriesDetails = (\<lambda>sid. Inr series),
      getSeasonByNumber = (\<lambda>sid n ty. Inr None),
      getSeasonDetails = (\<lambda>i. Inl (Error ''no season details'')),
      getEpisodeByNumber = (\<lambda>sid n e ty. Inr None),
      getEpisodeDetails = (\<lambda>i. Inl (Error ''no episode details''))\<rparr>"

definition tenSeasons :: TVDBSeries where
  "tenSeasons =
     mockTVDBSeries\<lparr>seasons :=
       Some (sampleSeason dvdType 1 #
             map (sampleSeason officialType) [1, 2, 3, 4, 5, 6, 7, 8, 9, 10])\<rparr>"

text \<open>A client that also finds the seasons of the DVD ordering.\<close>

definition dvdClient :: TVDBClient where
  "dvdClient =
     (sampleClient mockTVDBSeries)\<lparr>getSeasonByNumber :=
        (\<lambda>sid n ty. Inr (if ty = ''dvd'' then Some (sampleSeason dvdType n) else None))\<rparr>"

section \<open>Properties\<close>

subsection \<open>Digits, numbers and the encoded strings\<close>

lemma nat_digits_nonempty: "nat_digits n \<noteq> []"
  by (subst nat_digits.simps) simp

lemma is_digit_digit_char: "d < 10 \<Longrightarrow> is_digit (digit_char d)"
proof -
  assume "d < 10"
  then have "d \<in> {0,1,2,3,4,5,6,7,8,9}" by auto
  then show ?thesis by (auto simp: is_digit_def digit_char_def)
qed

lemma digit_val_digit_char: "d < 10 \<Longrightarrow> digit_val (digit_char d) = d"
proof -
  assume "d < 10"
  then have "d \<in> {0,1,2,3,4,5,6,7,8,9}" by auto
  then show ?thesis by (auto simp: digit_val_def digit_char_def)
qed

lemma nat_digits_all_digits: "list_all is_digit (nat_digits n)"
proof (induction n rule: nat_digits.induct)
  case (1 n)
  show ?case
  proof (cases "n < 10")
    case True
    then show ?thesis by (subst nat_digits.simps) (simp add: is_digit_digit_char)
  next
    case False
    with 1 show ?thesis by (subst nat_digits.simps) (simp add: is_digit_digit_char)
  qed
qed

lemma foldl_nat_digits: "foldl (\<lambda>a c. 10 * a + digit_val c) 0 (nat_digits n) = n"
proof (induction n rule: nat_digits.induct)
  case (1 n)
  show ?case
  proof (cases "n < 10")
    case True
    then show ?thesis by (subst nat_digits.simps) (simp add: digit_val_digit_char)
  next
    case False
    with 1 show ?thesis by (subst nat_digits.simps) (simp add: digit_val_digit_char)
  qed
qed

lemma parseInt_number_toString: "0 \<le> n \<Longrightarrow> parseInt (number_toString n) = n"
  by (simp add: parseInt_def number_toString_def foldl_nat_digits)

lemma number_toString_digits: "0 \<le> n \<Longrightarrow> list_all is_digit (number_toString n)"
  by (simp add: number_toString_def nat_digits_all_digits)

lemma number_toString_nonempty: "number_toString n \<noteq> []"
  by (simp add: number_toString_def nat_digits_nonempty)

lemma takeWhile_run:
  "list_all P g \<Longrightarrow> (s = [] \<or> \<not> P (hd s)) \<Longrightarrow>
   takeWhile P (g @ s) = g \<and> dropWhile P (g @ s) = s"
  by (cases s; induction g) auto

lemma not_digit_dash: "\<not> is_digit CHR ''-''"
  by (simp add: is_digit_def)

lemma not_lower_dash: "\<not> is_lower CHR ''-''"
  by (simp add: is_lower_def)

lemma number_toString_is_digit:
  "0 \<le> n \<Longrightarrow> c \<in> set (number_toString n) \<Longrightarrow> is_digit c"
  using number_toString_digits [of n] by (simp add: list_all_iff)

lemma tag_is_lower: "list_all is_lower t \<Longrightarrow> c \<in> set t \<Longrightarrow> is_lower c"
  by (simp add: list_all_iff)

lemma number_toString_runs:
  assumes "0 \<le> n"
  shows "takeWhile is_digit (number_toString n) = number_toString n"
    and "dropWhile is_digit (number_toString n) = []"
    and "takeWhile is_digit (number_toString n @ s) = number_toString n @ takeWhile is_digit s"
    and "dropWhile is_digit (number_toString n @ s) = dropWhile is_digit s"
  using number_toString_digits [OF assms] by (simp_all add: list_all_iff)

lemma tag_runs:
  assumes "list_all is_lower t"
  shows "takeWhile is_lower t = t" and "dropWhile is_lower t = []"
  using assms by (simp_all add: list_all_iff)

lemmas codec_simps =
  number_toString_runs tag_runs parseRatingKey_def decode_forms_def showForm_def
  seasonTypeForm_def seasonForm_def episodeTypeForm_def episodeForm_def showRe_def
  seasonTypeRe_def seasonRe_def episodeTypeRe_def episodeRe_def encodeShow_def
  encodeSeason_def encodeEpisode_def tag_suffix_def number_toString_is_digit
  number_toString_nonempty parseInt_number_toString not_digit_dash not_lower_dash tag_is_lower

lemma decode_encodeShow:
  "0 \<le> sid \<Longrightarrow>
   parseRatingKey (encodeShow sid) =
     Some \<lparr>parsed_type = TypeShow, parsed_seriesId = sid, parsed_seasonNumber = None,
       parsed_episodeNumber = None, parsed_seasonType = None\<rparr>"
  by (simp add: codec_simps)

lemma decode_encodeSeason_None:
  "0 \<le> sid \<Longrightarrow> 0 \<le> n \<Longrightarrow>
   parseRatingKey (encodeSeason sid n None) =
     Some \<lparr>parsed_type = TypeSeason, parsed_seriesId = sid, parsed_seasonNumber = Some n,
       parsed_episodeNumber = None, parsed_seasonType = None\<rparr>"
  by (simp add: codec_simps)

lemma decode_encodeSeason_Some:
  "0 \<le> sid \<Longrightarrow> 0 \<le> n \<Longrightarrow> t \<noteq> [] \<Longrightarrow> list_all is_lower t \<Longrightarrow>
   parseRatingKey (encodeSeason sid n (Some t)) =
     Some \<lparr>parsed_type = TypeSeason, parsed_seriesId = sid, parsed_seasonNumber = Some n,
       parsed_episodeNumber = None, parsed_seasonType = Some t\<rparr>"
  by (simp add: codec_simps)

lemma decode_encodeEpisode_None:
  "0 \<le> sid \<Longrightarrow> 0 \<le> n \<Longrightarrow> 0 \<le> e \<Longrightarrow>
   parseRatingKey (encodeEpisode sid n e None) =
     Some \<lparr>parsed_type = TypeEpisode, parsed_seriesId = sid, parsed_seasonNumber = Some n,
       parsed_episodeNumber = Some e, parsed_seasonType = None\<rparr>"
  by (simp add: codec_simps)

lemma decode_encodeEpisode_Some:
  "0 \<le> sid \<Longrightarrow> 0 \<le> n \<Longrightarrow> 0 \<le> e \<Longrightarrow> t \<noteq> [] \<Longrightarrow> list_all is_lower t \<Longrightarrow>
   parseRatingKey (encodeEpisode sid n e (Some t)) =
     Some \<lparr>parsed_type = TypeEpisode, parsed_seriesId = sid, parsed_seasonNumber = Some n,
       parsed_episodeNumber = Some e, parsed_seasonType = Some t\<rparr>"
  by (simp add: codec_simps)

subsection \<open>The decode forms exclude one another\<close>

lemma regex_match_Lit_prefix:
  "regex_match (Lit l # ps) s \<noteq> None \<Longrightarrow> \<exists>r. s = l @ r"
  by (metis append_take_drop_id regex_match.simps(2))

lemma showForm_prefix: "showForm s \<noteq> None \<Longrightarrow> \<exists>r. s = ''tvdb-show-'' @ r"
  using regex_match_Lit_prefix [of "''tvdb-show-''" "[Digits]" s]
  by (auto simp: showForm_def showRe_def split: option.splits)

lemma seasonTypeForm_prefix: "seasonTypeForm s \<noteq> None \<Longrightarrow> \<exists>r. s = ''tvdb-season-'' @ r"
  using regex_match_Lit_prefix [of "''tvdb-season-''" _ s]
  by (auto simp: seasonTypeForm_def seasonTypeRe_def split: option.splits)

lemma seasonForm_prefix: "seasonForm s \<noteq> None \<Longrightarrow> \<exists>r. s = ''tvdb-season-'' @ r"
  using regex_match_Lit_prefix [of "''tvdb-season-''" _ s]
  by (auto simp: seasonForm_def seasonRe_def split: option.splits)

lemma episodeTypeForm_prefix: "episodeTypeForm s \<noteq> None \<Longrightarrow> \<exists>r. s = ''tvdb-episode-'' @ r"
  using regex_match_Lit_prefix [of "''tvdb-episode-''" _ s]
  by (auto simp: episodeTypeForm_def episodeTypeRe_def split: option.splits)

lemma episodeForm_prefix: "episodeForm s \<noteq> None \<Longrightarrow> \<exists>r. s = ''tvdb-episode-'' @ r"
  using regex_match_Lit_prefix [of "''tvdb-episode-''" _ s]
  by (auto simp: episodeForm_def episodeRe_def split: option.splits)

lemma regex_match_common_prefix:
  "regex_match (pre @ q1) s = Some c1 \<Longrightarrow> regex_match (pre @ q2) s = Some c2 \<Longrightarrow>
   \<exists>r a1 a2. regex_match q1 r = Some a1 \<and> regex_match q2 r = Some a2"
proof (induction pre arbitrary: s c1 c2)
  case Nil
  then show ?case by auto
next
  case (Cons p pre)
  show ?case
  proof (cases p)
    case (Lit l)
    with Cons.prems have "regex_match (pre @ q1) (drop (length l) s) = Some c1"
      and "regex_match (pre @ q2) (drop (length l) s) = Some c2"
      by (auto split: if_splits)
    then show ?thesis by (rule Cons.IH)
  next
    case Digits
    with Cons.prems obtain d1 d2 where "regex_match (pre @ q1) (dropWhile is_digit s) = Some d1"
      and "regex_match (pre @ q2) (dropWhile is_digit s) = Some d2"
      by (auto simp: Let_def split: if_splits)
    then show ?thesis by (rule Cons.IH)
  next
    case Lowers
    with Cons.prems obtain d1 d2 where "regex_match (pre @ q1) (dropWhile is_lower s) = Some d1"
      and "regex_match (pre @ q2) (dropWhile is_lower s) = Some d2"
      by (auto simp: Let_def split: if_splits)
    then show ?thesis by (rule Cons.IH)
  qed
qed

lemma tagged_untagged_exclusive:
  assumes "regex_match (pre @ [Lit ''-'', Lowers]) s \<noteq> None" and "regex_match (pre @ []) s \<noteq> None"
  shows False
proof -
  from assms obtain c1 c2 where "regex_match (pre @ [Lit ''-'', Lowers]) s = Some c1"
    and "regex_match (pre @ []) s = Some c2" by auto
  from regex_match_common_prefix [OF this] obtain r a1 a2
    where "regex_match [Lit ''-'', Lowers] r = Some a1" and "regex_match [] r = Some a2" by blast
  then show False by (auto split: if_splits)
qed

lemma season_forms_exclusive: "seasonTypeForm s \<noteq> None \<Longrightarrow> seasonForm s \<noteq> None \<Longrightarrow> False"
proof -
  assume "seasonTypeForm s \<noteq> None" and "seasonForm s \<noteq> None"
  then have "regex_match seasonTypeRe s \<noteq> None" and "regex_match seasonRe s \<noteq> None"
    by (auto simp: seasonTypeForm_def seasonForm_def split: option.splits)
  then have "regex_match ([Lit ''tvdb-season-'', Digits, Lit ''-'', Digits] @ [Lit ''-'', Lowers]) s \<noteq> None"
    and "regex_match ([Lit ''tvdb-season-'', Digits, Lit ''-'', Digits] @ []) s \<noteq> None"
    by (simp_all add: seasonTypeRe_def seasonRe_def del: regex_match.simps)
  then show False by (rule tagged_untagged_exclusive)
qed

lemma episode_forms_exclusive: "episodeTypeForm s \<noteq> None \<Longrightarrow> episodeForm s \<noteq> None \<Longrightarrow> False"
proof -
  assume "episodeTypeForm s \<noteq> None" and "episodeForm s \<noteq> None"
  then have "regex_match episodeTypeRe s \<noteq> None" and "regex_match episodeRe s \<noteq> None"
    by (auto simp: episodeTypeForm_def episodeForm_def split: option.splits)
  then have "regex_match ([Lit ''tvdb-episode-'', Digits, Lit ''-'', Digits, Lit ''-'', Digits] @
      [Lit ''-'', Lowers]) s \<noteq> None"
    and "regex_match ([Lit ''tvdb-episode-'', Digits, Lit ''-'', Digits, Lit ''-'', Digits] @ []) s
      \<noteq> None"
    by (simp_all add: episodeTypeRe_def episodeRe_def del: regex_match.simps)
  then show False by (rule tagged_untagged_exclusive)
qed

lemma forms_pairwise_exclusive:
  "showForm s = None \<or> seasonTypeForm s = None"
  "showForm s = None \<or> seasonForm s = None"
  "showForm s = None \<or> episodeTypeForm s = None"
  "showForm s = None \<or> episodeForm s = None"
  "seasonTypeForm s = None \<or> seasonForm s = None"
  "seasonTypeForm s = None \<or> episodeTypeForm s = None"
  "seasonTypeForm s = None \<or> episodeForm s = None"
  "seasonForm s = None \<or> episodeTypeForm s = None"
  "seasonForm s = None \<or> episodeForm s = None"
  "episodeTypeForm s = None \<or> episodeForm s = None"
proof -
  show "showForm s = None \<or> seasonTypeForm s = None"
    using showForm_prefix [of s] seasonTypeForm_prefix [of s] by auto
  show "showForm s = None \<or> seasonForm s = None"
    using showForm_prefix [of s] seasonForm_prefix [of s] by auto
  show "showForm s = None \<or> episodeTypeForm s = None"
    using showForm_prefix [of s] episodeTypeForm_prefix [of s] by auto
  show "showForm s = None \<or> episodeForm s = None"
    using showForm_prefix [of s] episodeForm_prefix [of s] by auto
  show "seasonTypeForm s = None \<or> seasonForm s = None"
    using season_forms_exclusive [of s] by blast
  show "seasonTypeForm s = None \<or> episodeTypeForm s = None"
    using seasonTypeForm_prefix [of s] episodeTypeForm_prefix [of s] by auto
  show "seasonTypeForm s = None \<or> episodeForm s = None"
    using seasonTypeForm_prefix [of s] episodeForm_prefix [of s] by auto
  show "seasonForm s = None \<or> episodeTypeForm s = None"
    using seasonForm_prefix [of s] episodeTypeForm_prefix [of s] by auto
  show "seasonForm s = None \<or> episodeForm s = None"
    using seasonForm_prefix [of s] episodeForm_prefix [of s] by auto
  show "episodeTypeForm s = None \<or> episodeForm s = None"
    using episode_forms_exclusive [of s] by blast
qed

lemma at_most_one_form: "length (filter (\<lambda>f. f s \<noteq> None) decode_forms) \<le> 1"
  using forms_pairwise_exclusive [of s]
  by (cases "showForm s"; cases "seasonTypeForm s"; cases "seasonForm s";
      cases "episodeTypeForm s"; cases "episodeForm s"; simp add: decode_forms_def)

subsection \<open>The greedy matcher computes the meaning of a separated pattern\<close>

lemma takeWhile_unique:
  assumes "list_all P g" and "r = [] \<or> \<not> P (hd r)"
  shows "takeWhile P (g @ r) = g" and "dropWhile P (g @ r) = r"
  using assms takeWhile_run [of P g r] by auto

lemma re_matches_group:
  assumes "\<And>l. p \<noteq> Lit l"
  shows "re_matches (p # ps) s caps =
     (\<exists>g r cs. caps = g # cs \<and> g \<noteq> [] \<and> list_all (piece_class p) g \<and> s = g @ r \<and>
        re_matches ps r cs)"
  using assms by (cases p) auto

lemma regex_match_group:
  assumes "\<And>l. p \<noteq> Lit l"
  shows "regex_match (p # ps) s =
     (let g = takeWhile (piece_class p) s in
      if g = [] then None
      else map_option (\<lambda>caps. g # caps) (regex_match ps (dropWhile (piece_class p) s)))"
  using assms by (cases p) auto

lemma re_matches_next_outside:
  assumes "re_matches ps r cs"
    and "case ps of [] \<Rightarrow> True | Lit (c # l) # qs \<Rightarrow> \<not> P c | _ \<Rightarrow> False"
  shows "r = [] \<or> \<not> P (hd r)"
proof (cases ps)
  case Nil
  with assms show ?thesis by simp
next
  case (Cons q qs)
  show ?thesis
  proof (cases q)
    case (Lit l)
    show ?thesis
    proof (cases l)
      case Nil
      with assms Cons Lit show ?thesis by simp
    next
      case (Cons c l')
      with assms \<open>ps = q # qs\<close> Lit show ?thesis by auto
    qed
  next
    case Digits
    with assms Cons show ?thesis by simp
  next
    case Lowers
    with assms Cons show ?thesis by simp
  qed
qed

lemma group_step_fwd:
  assumes np: "\<And>l. p \<noteq> Lit l"
    and IH: "\<And>s caps. regex_match ps s = Some caps \<longleftrightarrow> re_matches ps s caps"
    and m: "regex_match (p # ps) s = Some caps"
  shows "re_matches (p # ps) s caps"
proof -
  let ?g = "takeWhile (piece_class p) s"
  let ?r = "dropWhile (piece_class p) s"
  from m have m': "(if ?g = [] then None
      else map_option (\<lambda>caps. ?g # caps) (regex_match ps ?r)) = Some caps"
    unfolding regex_match_group [OF np] Let_def .
  then have g: "?g \<noteq> []" by (cases "?g = []") simp_all
  with m' obtain cs where cs: "regex_match ps ?r = Some cs" and caps: "caps = ?g # cs"
    by (cases "regex_match ps ?r") auto
  from cs IH have "re_matches ps ?r cs" by blast
  moreover have "list_all (piece_class p) ?g"
    unfolding list_all_iff using set_takeWhileD by fast
  moreover have "s = ?g @ ?r" by simp
  ultimately have "\<exists>g r cs. caps = g # cs \<and> g \<noteq> [] \<and> list_all (piece_class p) g \<and> s = g @ r \<and>
        re_matches ps r cs"
    using g caps by blast
  then show ?thesis unfolding re_matches_group [OF np] .
qed

lemma group_step_bwd:
  assumes np: "\<And>l. p \<noteq> Lit l"
    and nxt: "case ps of [] \<Rightarrow> True | Lit (c # l) # qs \<Rightarrow> \<not> piece_class p c | _ \<Rightarrow> False"
    and IH: "\<And>s caps. regex_match ps s = Some caps \<longleftrightarrow> re_matches ps s caps"
    and m: "re_matches (p # ps) s caps"
  shows "regex_match (p # ps) s = Some caps"
proof -
  from m obtain g r cs where caps: "caps = g # cs" and g: "g \<noteq> []"
    and all: "list_all (piece_class p) g" and s: "s = g @ r" and r: "re_matches ps r cs"
    unfolding re_matches_group [OF np] by blast
  from re_matches_next_outside [OF r nxt] have out: "r = [] \<or> \<not> piece_class p (hd r)" .
  from takeWhile_unique [OF all out] s
  have tw: "takeWhile (piece_class p) s = g" and dw: "dropWhile (piece_class p) s = r"
    by simp_all
  from r IH have "regex_match ps r = Some cs" by blast
  then show ?thesis
    unfolding regex_match_group [OF np] Let_def tw dw using g caps by simp
qed

lemma lit_step:
  assumes IH: "\<And>s caps. regex_match ps s = Some caps \<longleftrightarrow> re_matches ps s caps"
  shows "regex_match (Lit l # ps) s = Some caps \<longleftrightarrow> re_matches (Lit l # ps) s caps"
proof
  assume "regex_match (Lit l # ps) s = Some caps"
  then have "take (length l) s = l" and "regex_match ps (drop (length l) s) = Some caps"
    by (simp_all split: if_splits)
  with IH have "s = l @ drop (length l) s" and "re_matches ps (drop (length l) s) caps"
    by (metis append_take_drop_id, blast)
  then show "re_matches (Lit l # ps) s caps" unfolding re_matches.simps by blast
next
  assume "re_matches (Lit l # ps) s caps"
  then obtain r where "s = l @ r" and "re_matches ps r caps" by auto
  with IH show "regex_match (Lit l # ps) s = Some caps" by simp
qed

lemma regex_match_iff_re_matches:
  "separated ps \<Longrightarrow> regex_match ps s = Some caps \<longleftrightarrow> re_matches ps s caps"
proof (induction ps arbitrary: s caps)
  case Nil
  then show ?case by auto
next
  case (Cons p ps)
  show ?case
  proof (cases p)
    case (Lit l)
    with Cons.prems have "separated ps" by simp
    from lit_step [of ps l s caps, OF Cons.IH [OF this]] Lit show ?thesis by simp
  next
    case Digits
    from Cons.prems [unfolded Digits] have sep: "separated ps"
      and nxt: "case ps of [] \<Rightarrow> True | Lit (c # l) # qs \<Rightarrow> \<not> piece_class Digits c | _ \<Rightarrow> False"
      by simp_all
    have np: "\<And>l. Digits \<noteq> Lit l" by simp
    show ?thesis
      unfolding Digits
      using group_step_fwd [OF np Cons.IH [OF sep]] group_step_bwd [OF np nxt Cons.IH [OF sep]]
      by blast
  next
    case Lowers
    from Cons.prems [unfolded Lowers] have sep: "separated ps"
      and nxt: "case ps of [] \<Rightarrow> True | Lit (c # l) # qs \<Rightarrow> \<not> piece_class Lowers c | _ \<Rightarrow> False"
      by simp_all
    have np: "\<And>l. Lowers \<noteq> Lit l" by simp
    show ?thesis
      unfolding Lowers
      using group_step_fwd [OF np Cons.IH [OF sep]] group_step_bwd [OF np nxt Cons.IH [OF sep]]
      by blast
  qed
qed

lemma patterns_separated:
  "separated showRe" "separated seasonTypeRe" "separated seasonRe"
  "separated episodeTypeRe" "separated episodeRe"
  by (simp_all add: showRe_def seasonTypeRe_def seasonRe_def episodeTypeRe_def episodeRe_def
      is_digit_def is_lower_def)

subsection \<open>Forms, patterns and the order of the attempts\<close>

lemma regex_match_captures:
  "regex_match ps s = Some caps \<Longrightarrow> length caps = length (filter is_group ps)"
proof (induction ps arbitrary: s caps)
  case Nil
  then show ?case by (simp split: if_splits)
next
  case (Cons p ps)
  show ?case
  proof (cases p)
    case (Lit l)
    with Cons.prems have "regex_match ps (drop (length l) s) = Some caps"
      by (simp split: if_splits)
    from Cons.IH [OF this] Lit show ?thesis by simp
  next
    case Digits
    with Cons.prems obtain cs where "regex_match ps (dropWhile is_digit s) = Some cs"
      and "caps = takeWhile is_digit s # cs"
      by (auto simp: Let_def split: if_splits)
    with Cons.IH [of "dropWhile is_digit s" cs] Digits show ?thesis by simp
  next
    case Lowers
    with Cons.prems obtain cs where "regex_match ps (dropWhile is_lower s) = Some cs"
      and "caps = takeWhile is_lower s # cs"
      by (auto simp: Let_def split: if_splits)
    with Cons.IH [of "dropWhile is_lower s" cs] Lowers show ?thesis by simp
  qed
qed

lemma length_1: "length xs = Suc 0 \<Longrightarrow> \<exists>a. xs = [a]"
  by (cases xs) auto

lemma length_2: "length xs = 2 \<Longrightarrow> \<exists>a b. xs = [a, b]"
  by (cases xs; simp) (metis length_1)

lemma length_3: "length xs = 3 \<Longrightarrow> \<exists>a b c. xs = [a, b, c]"
  by (cases xs; simp) (metis length_2 numeral_2_eq_2)

lemma length_4: "length xs = 4 \<Longrightarrow> \<exists>a b c d. xs = [a, b, c, d]"
proof -
  assume "length xs = 4"
  then obtain a ys where "xs = a # ys" and "length ys = 3" by (cases xs) auto
  with length_3 [of ys] show ?thesis by auto
qed

lemma showForm_iff: "showForm s \<noteq> None \<longleftrightarrow> regex_match showRe s \<noteq> None"
proof
  assume "showForm s \<noteq> None"
  then show "regex_match showRe s \<noteq> None" by (auto simp: showForm_def split: option.splits)
next
  assume "regex_match showRe s \<noteq> None"
  then obtain caps where c: "regex_match showRe s = Some caps" by auto
  from regex_match_captures [OF c] have "length caps = Suc 0" by (simp add: showRe_def)
  with length_1 obtain a where "caps = [a]" by blast
  with c show "showForm s \<noteq> None" by (simp add: showForm_def)
qed

lemma seasonTypeForm_iff: "seasonTypeForm s \<noteq> None \<longleftrightarrow> regex_match seasonTypeRe s \<noteq> None"
proof
  assume "seasonTypeForm s \<noteq> None"
  then show "regex_match seasonTypeRe s \<noteq> None" by (auto simp: seasonTypeForm_def split: option.splits)
next
  assume "regex_match seasonTypeRe s \<noteq> None"
  then obtain caps where c: "regex_match seasonTypeRe s = Some caps" by auto
  from regex_match_captures [OF c] have "length caps = 3" by (simp add: seasonTypeRe_def)
  with length_3 obtain a b t where "caps = [a, b, t]" by blast
  with c show "seasonTypeForm s \<noteq> None" by (simp add: seasonTypeForm_def)
qed

lemma seasonForm_iff: "seasonForm s \<noteq> None \<longleftrightarrow> regex_match seasonRe s \<noteq> None"
proof
  assume "seasonForm s \<noteq> None"
  then show "regex_match seasonRe s \<noteq> None" by (auto simp: seasonForm_def split: option.splits)
next
  assume "regex_match seasonRe s \<noteq> None"
  then obtain caps where c: "regex_match seasonRe s = Some caps" by auto
  from regex_match_captures [OF c] have "length caps = 2" by (simp add: seasonRe_def)
  with length_2 obtain a b where "caps = [a, b]" by blast
  with c show "seasonForm s \<noteq> None" by (simp add: seasonForm_def)
qed

lemma episodeTypeForm_iff: "episodeTypeForm s \<noteq> None \<longleftrightarrow> regex_match episodeTypeRe s \<noteq> None"
proof
  assume "episodeTypeForm s \<noteq> None"
  then show "regex_match episodeTypeRe s \<noteq> None" by (auto simp: episodeTypeForm_def split: option.splits)
next
  assume "regex_match episodeTypeRe s \<noteq> None"
  then obtain caps where c: "regex_match episodeTypeRe s = Some caps" by auto
  from regex_match_captures [OF c] have "length caps = 4" by (simp add: episodeTypeRe_def)
  with length_4 obtain a b e t where "caps = [a, b, e, t]" by blast
  with c show "episodeTypeForm s \<noteq> None" by (simp add: episodeTypeForm_def)
qed

lemma episodeForm_iff: "episodeForm s \<noteq> None \<longleftrightarrow> regex_match episodeRe s \<noteq> None"
proof
  assume "episodeForm s \<noteq> None"
  then show "regex_match episodeRe s \<noteq> None" by (auto simp: episodeForm_def split: option.splits)
next
  assume "regex_match episodeRe s \<noteq> None"
  then obtain caps where c: "regex_match episodeRe s = Some caps" by auto
  from regex_match_captures [OF c] have "length caps = 3" by (simp add: episodeRe_def)
  with length_3 obtain a b e where "caps = [a, b, e]" by blast
  with c show "episodeForm s \<noteq> None" by (simp add: episodeForm_def)
qed

lemma pattern_matches_iff:
  "separated p \<Longrightarrow> (\<exists>caps. re_matches p s caps) \<longleftrightarrow> regex_match p s \<noteq> None"
  using regex_match_iff_re_matches [of p s] by auto

lemma form_iff_pattern:
  "(\<exists>caps. re_matches showRe s caps) \<longleftrightarrow> showForm s \<noteq> None"
  "(\<exists>caps. re_matches seasonTypeRe s caps) \<longleftrightarrow> seasonTypeForm s \<noteq> None"
  "(\<exists>caps. re_matches seasonRe s caps) \<longleftrightarrow> seasonForm s \<noteq> None"
  "(\<exists>caps. re_matches episodeTypeRe s caps) \<longleftrightarrow> episodeTypeForm s \<noteq> None"
  "(\<exists>caps. re_matches episodeRe s caps) \<longleftrightarrow> episodeForm s \<noteq> None"
  by (simp_all only: pattern_matches_iff [OF patterns_separated(1)]
      pattern_matches_iff [OF patterns_separated(2)] pattern_matches_iff [OF patterns_separated(3)]
      pattern_matches_iff [OF patterns_separated(4)] pattern_matches_iff [OF patterns_separated(5)]
      showForm_iff seasonTypeForm_iff seasonForm_iff episodeTypeForm_iff episodeForm_iff)

lemma at_most_one_pattern:
  "length (filter (\<lambda>p. \<exists>caps. re_matches p s caps) decode_patterns) \<le> 1"
  using forms_pairwise_exclusive [of s]
  unfolding decode_patterns_def filter.simps form_iff_pattern
  by (cases "showForm s"; cases "seasonTypeForm s"; cases "seasonForm s";
      cases "episodeTypeForm s"; cases "episodeForm s"; simp)

lemma first_match_None_iff: "first_match fs s = None \<longleftrightarrow> (\<forall>f\<in>set fs. f s = None)"
  by (induction fs) (auto split: option.splits)

lemma first_match_Some_iff:
  assumes "\<And>f g. f \<in> set fs \<Longrightarrow> g \<in> set fs \<Longrightarrow> f s \<noteq> None \<Longrightarrow> g s \<noteq> None \<Longrightarrow> f s = g s"
  shows "first_match fs s = Some r \<longleftrightarrow> (\<exists>f\<in>set fs. f s = Some r)"
  using assms
proof (induction fs)
  case Nil
  then show ?case by simp
next
  case (Cons f fs)
  have IH: "first_match fs s = Some r \<longleftrightarrow> (\<exists>f\<in>set fs. f s = Some r)"
    by (rule Cons.IH) (rule Cons.prems, simp_all)
  show ?case
  proof (cases "f s")
    case None
    with IH show ?thesis by simp
  next
    case (Some r')
    have same: "g s = Some r'" if "g \<in> set fs" and "g s \<noteq> None" for g
      using Cons.prems [of g f] that Some by simp
    have "(\<exists>g\<in>set (f # fs). g s = Some r) \<longleftrightarrow> r' = r"
    proof
      assume "\<exists>g\<in>set (f # fs). g s = Some r"
      then obtain g where "g = f \<or> g \<in> set fs" and gr: "g s = Some r" by auto
      with same [of g] Some show "r' = r" by auto
    next
      assume "r' = r"
      with Some show "\<exists>g\<in>set (f # fs). g s = Some r" by simp
    qed
    with Some show ?thesis by simp
  qed
qed

lemma short_list_members: "length xs \<le> 1 \<Longrightarrow> x \<in> set xs \<Longrightarrow> y \<in> set xs \<Longrightarrow> x = y"
  by (cases xs) auto

lemma decode_forms_agree:
  assumes "f \<in> set decode_forms" and "g \<in> set decode_forms" and "f s \<noteq> None" and "g s \<noteq> None"
  shows "f s = g s"
proof -
  from assms have "f \<in> set (filter (\<lambda>f. f s \<noteq> None) decode_forms)"
    and "g \<in> set (filter (\<lambda>f. f s \<noteq> None) decode_forms)" by simp_all
  with at_most_one_form [of s] have "f = g" by (rule short_list_members)
  then show ?thesis by simp
qed

lemma first_match_order:
  assumes "mset fs = mset decode_forms"
  shows "first_match fs s = parseRatingKey s"
proof -
  from assms have eq: "set fs = set decode_forms" by (rule mset_eq_setD)
  have a: "first_match fs s = Some r \<longleftrightarrow> (\<exists>f\<in>set fs. f s = Some r)" for r
    by (rule first_match_Some_iff) (rule decode_forms_agree, simp_all add: eq)
  have b: "first_match decode_forms s = Some r \<longleftrightarrow> (\<exists>f\<in>set decode_forms. f s = Some r)" for r
    by (rule first_match_Some_iff) (rule decode_forms_agree)
  from a b eq have key: "first_match fs s = Some r \<longleftrightarrow> first_match decode_forms s = Some r" for r
    by simp
  have "first_match fs s = first_match decode_forms s"
  proof (cases "first_match decode_forms s")
    case None
    with key have "first_match fs s \<noteq> Some r" for r by simp
    then have "first_match fs s = None" by (cases "first_match fs s") blast+
    with None show ?thesis by simp
  next
    case (Some r)
    with key [of r] show ?thesis by simp
  qed
  then show ?thesis by (simp add: parseRatingKey_def)
qed

lemma form_None_iff:
  "showForm s = None \<longleftrightarrow> (\<forall>caps. \<not> re_matches showRe s caps)"
  "seasonTypeForm s = None \<longleftrightarrow> (\<forall>caps. \<not> re_matches seasonTypeRe s caps)"
  "seasonForm s = None \<longleftrightarrow> (\<forall>caps. \<not> re_matches seasonRe s caps)"
  "episodeTypeForm s = None \<longleftrightarrow> (\<forall>caps. \<not> re_matches episodeTypeRe s caps)"
  "episodeForm s = None \<longleftrightarrow> (\<forall>caps. \<not> re_matches episodeRe s caps)"
  using form_iff_pattern [of s] by blast+

lemma parse_None_iff:
  "parseRatingKey s = None \<longleftrightarrow> (\<forall>p\<in>set decode_patterns. \<forall>caps. \<not> re_matches p s caps)"
proof -
  have "parseRatingKey s = None \<longleftrightarrow> (\<forall>f\<in>set decode_forms. f s = None)"
    unfolding parseRatingKey_def by (rule first_match_None_iff)
  also have "\<dots> \<longleftrightarrow> (\<forall>p\<in>set decode_patterns. \<not> (\<exists>caps. re_matches p s caps))"
    unfolding decode_patterns_def decode_forms_def by (simp add: form_None_iff)
  finally show ?thesis by simp
qed

subsection \<open>Round trip and exclusive forms\<close>

text \<open>
  C1. For non-negative safe integers and an ordering tag that is absent or a non-empty
  word of lower-case letters, decoding the encoded identifier gives back the type and
  every component, for each of the three shapes.
\<close>

theorem decode_encode_roundtrip:
  assumes "safe_id sid" and "safe_id n" and "safe_id e" and "valid_tag tg"
  shows "parseRatingKey (encodeShow sid) =
           Some \<lparr>parsed_type = TypeShow, parsed_seriesId = sid, parsed_seasonNumber = None,
             parsed_episodeNumber = None, parsed_seasonType = None\<rparr> \<and>
         parseRatingKey (encodeSeason sid n tg) =
           Some \<lparr>parsed_type = TypeSeason, parsed_seriesId = sid, parsed_seasonNumber = Some n,
             parsed_episodeNumber = None, parsed_seasonType = tg\<rparr> \<and>
         parseRatingKey (encodeEpisode sid n e tg) =
           Some \<lparr>parsed_type = TypeEpisode, parsed_seriesId = sid, parsed_seasonNumber = Some n,
             parsed_episodeNumber = Some e, parsed_seasonType = tg\<rparr>"
proof -
  from assms have nn: "0 \<le> sid" "0 \<le> n" "0 \<le> e" by (simp_all add: safe_id_def)
  show ?thesis
  proof (cases tg)
    case None
    with nn show ?thesis
      by (simp add: decode_encodeShow decode_encodeSeason_None decode_encodeEpisode_None)
  next
    case (Some t)
    with assms have "t \<noteq> []" and "list_all is_lower t" by (simp_all add: valid_tag_def)
    with nn Some show ?thesis
      by (simp add: decode_encodeShow decode_encodeSeason_Some decode_encodeEpisode_Some)
  qed
qed

theorem decode_encode_roundtrip_witness:
  "encodeShow 15260 = ''tvdb-show-15260'' \<and>
   encodeSeason 15260 1 (Some ''dvd'') = ''tvdb-season-15260-1-dvd'' \<and>
   encodeEpisode 15260 1 5 (Some ''dvd'') = ''tvdb-episode-15260-1-5-dvd'' \<and>
   parseRatingKey ''tvdb-show-15260'' =
     Some \<lparr>parsed_type = TypeShow, parsed_seriesId = 15260, parsed_seasonNumber = None,
       parsed_episodeNumber = None, parsed_seasonType = None\<rparr> \<and>
   parseRatingKey ''tvdb-season-15260-1-dvd'' =
     Some \<lparr>parsed_type = TypeSeason, parsed_seriesId = 15260, parsed_seasonNumber = Some 1,
       parsed_episodeNumber = None, parsed_seasonType = Some ''dvd''\<rparr> \<and>
   parseRatingKey ''tvdb-episode-15260-1-5-dvd'' =
     Some \<lparr>parsed_type = TypeEpisode, parsed_seriesId = 15260, parsed_seasonNumber = Some 1,
       parsed_episodeNumber = Some 5, parsed_seasonType = Some ''dvd''\<rparr>"
proof -
  have enc: "encodeShow 15260 = ''tvdb-show-15260''"
    "encodeSeason 15260 1 (Some ''dvd'') = ''tvdb-season-15260-1-dvd''"
    "encodeEpisode 15260 1 5 (Some ''dvd'') = ''tvdb-episode-15260-1-5-dvd''"
    by (simp_all add: encodeShow_def encodeSeason_def encodeEpisode_def tag_suffix_def
        number_toString_def nat_digits.simps digit_char_def)
  have hyp: "safe_id 15260" "safe_id 1" "safe_id 5" "valid_tag (Some ''dvd'')"
    by (simp_all add: safe_id_def valid_tag_def is_lower_def)
  from decode_encode_roundtrip [OF hyp] show ?thesis unfolding enc by simp
qed

text \<open>
  C3. For every input string at most one of the five anchored patterns matches; the
  result of trying the five decode forms does not depend on the order in which they are
  tried; and the result is \<open>None\<close> exactly when none of the five patterns matches the
  whole string.
\<close>

theorem decode_forms_exclusive:
  "length (filter (\<lambda>p. \<exists>caps. re_matches p s caps) decode_patterns) \<le> 1 \<and>
   (\<forall>fs. mset fs = mset decode_forms \<longrightarrow> first_match fs s = parseRatingKey s) \<and>
   (parseRatingKey s = None \<longleftrightarrow> (\<forall>p\<in>set decode_patterns. \<forall>caps. \<not> re_matches p s caps))"
  using at_most_one_pattern [of s] first_match_order [of _ s] parse_None_iff [of s] by blast

theorem decode_forms_exclusive_witness:
  "first_match (rev decode_forms) ''tvdb-season-15260-1-dvd'' =
     Some \<lparr>parsed_type = TypeSeason, parsed_seriesId = 15260, parsed_seasonNumber = Some 1,
       parsed_episodeNumber = None, parsed_seasonType = Some ''dvd''\<rparr> \<and>
   parseRatingKey ''tvdb-show-15260-1'' = None \<and>
   \<not> (\<exists>caps. re_matches showRe ''tvdb-show-15260-1'' caps)"
proof -
  have p1: "parseRatingKey ''tvdb-season-15260-1-dvd'' =
     Some \<lparr>parsed_type = TypeSeason, parsed_seriesId = 15260, parsed_seasonNumber = Some 1,
       parsed_episodeNumber = None, parsed_seasonType = Some ''dvd''\<rparr>"
    by (simp add: parseRatingKey_def decode_forms_def showForm_def seasonTypeForm_def
        showRe_def seasonTypeRe_def is_digit_def is_lower_def parseInt_def digit_val_def)
  have p2: "parseRatingKey ''tvdb-show-15260-1'' = None"
    by (simp add: parseRatingKey_def decode_forms_def showForm_def seasonTypeForm_def
        seasonForm_def episodeTypeForm_def episodeForm_def showRe_def seasonTypeRe_def
        seasonRe_def episodeTypeRe_def episodeRe_def is_digit_def is_lower_def)
  have m: "mset (rev decode_forms) = mset decode_forms" by simp
  from decode_forms_exclusive [of "''tvdb-season-15260-1-dvd''"] m
  have "first_match (rev decode_forms) ''tvdb-season-15260-1-dvd'' =
      parseRatingKey ''tvdb-season-15260-1-dvd''" by blast
  moreover from decode_forms_exclusive [of "''tvdb-show-15260-1''"] p2
  have "\<forall>p\<in>set decode_patterns. \<forall>caps. \<not> re_matches p ''tvdb-show-15260-1'' caps" by blast
  then have "\<not> (\<exists>caps. re_matches showRe ''tvdb-show-15260-1'' caps)"
    by (simp add: decode_patterns_def)
  ultimately show ?thesis using p1 p2 by simp
qed

subsection \<open>Season identifiers\<close>

lemma mapSeason_ratingKey:
  "sm_ratingKey (mapSeason season sid showTitle showGuid showThumb ic) =
     encodeSeason sid (season_number season) None"
  by (simp add: mapSeason_def encodeSeason_def tag_suffix_def Let_def)

lemma parse_season_dvd:
  "parseRatingKey ''tvdb-season-15260-1-dvd'' =
     Some \<lparr>parsed_type = TypeSeason, parsed_seriesId = 15260, parsed_seasonNumber = Some 1,
       parsed_episodeNumber = None, parsed_seasonType = Some ''dvd''\<rparr>"
  by (simp add: parseRatingKey_def decode_forms_def showForm_def seasonTypeForm_def
      showRe_def seasonTypeRe_def is_digit_def is_lower_def parseInt_def digit_val_def)

lemma getSeason_dvd:
  "getSeason dvdClient 15260 1 \<lparr>opt_country = None, opt_includeChildren = None\<rparr> (Some ''dvd'') =
     Inr (single_item (Season (mapSeason (sampleSeason dvdType 1) 15260
       (series_name mockTVDBSeries) (show_guid_of 15260)
       (or_undefined (series_image mockTVDBSeries)) False)))"
  by (simp add: getSeason_def dvdClient_def sampleClient_def or_else_def or_undefined_def
      truthy_def)

lemma getMetadata_season_dvd:
  "getMetadata dvdClient ''tvdb-season-15260-1-dvd''
      \<lparr>opt_country = None, opt_includeChildren = None\<rparr> =
     Inr (single_item (Season (mapSeason (sampleSeason dvdType 1) 15260
       (series_name mockTVDBSeries) (show_guid_of 15260)
       (or_undefined (series_image mockTVDBSeries)) False)))"
  by (simp add: getMetadata_def parse_season_dvd getSeason_dvd)


lemma getSeasonTypeShortTag_lookup:
  "getSeasonTypeShortTag None = ''default''"
  "getSeasonTypeShortTag (Some st) =
     (if toLowerCase (seasonType_type st) = ''default'' \<or>
         toLowerCase (seasonType_type st) = ''official''
      then ''default'' else toLowerCase (seasonType_type st))"
proof -
  show "getSeasonTypeShortTag None = ''default''" by (simp add: getSeasonTypeShortTag_def)
  let ?w = "toLowerCase (seasonType_type st)"
  have "or_else (map_of typeMap ?w) ?w =
      (if ?w = ''default'' \<or> ?w = ''official'' then ''default'' else ?w)"
    by (simp add: typeMap_def or_else_def or_undefined_def)
  then show "getSeasonTypeShortTag (Some st) =
     (if ?w = ''default'' \<or> ?w = ''official'' then ''default'' else ?w)"
    by (simp add: getSeasonTypeShortTag_def)
qed

text \<open>
  C2. At a season of the DVD ordering the lookup table gives the tag \<open>dvd\<close>, and the
  identifier with that tag is \<open>tvdb-season-15260-1-dvd\<close>; the identifier that
  \<open>mapSeason\<close> builds is \<open>tvdb-season-15260-1\<close>, without the tag, and this is the
  identifier of the entity that \<open>getMetadata\<close> returns for
  \<open>tvdb-season-15260-1-dvd\<close>.
\<close>

theorem mapSeason_drops_ordering_tag:
  "getSeasonTypeShortTag (Some (season_type (sampleSeason dvdType 1))) = ''dvd'' \<and>
   encodeSeason 15260 1 (Some ''dvd'') = ''tvdb-season-15260-1-dvd'' \<and>
   sm_ratingKey (mapSeason (sampleSeason dvdType 1) 15260 ''Show'' (show_guid_of 15260) None False)
     = ''tvdb-season-15260-1'' \<and>
   (\<exists>c m. getMetadata dvdClient ''tvdb-season-15260-1-dvd''
             \<lparr>opt_country = None, opt_includeChildren = None\<rparr> = Inr c \<and>
          container_Metadata c = [Season m] \<and> sm_ratingKey m = ''tvdb-season-15260-1'')"
proof -
  have a: "getSeasonTypeShortTag (Some (season_type (sampleSeason dvdType 1))) = ''dvd''"
    by (simp add: sampleSeason_def dvdType_def getSeasonTypeShortTag_def
      typeMap_def toLowerCase_def lower_char_def or_else_def or_undefined_def)
  have b: "encodeSeason 15260 1 (Some ''dvd'') = ''tvdb-season-15260-1-dvd''"
    by (simp add: encodeSeason_def tag_suffix_def number_toString_def nat_digits.simps
        digit_char_def)
  have "encodeSeason 15260 1 None = ''tvdb-season-15260-1''"
    by (simp add: encodeSeason_def tag_suffix_def number_toString_def nat_digits.simps
        digit_char_def)
  then have key: "sm_ratingKey (mapSeason (sampleSeason dvdType 1) 15260 title guid thumb False)
     = ''tvdb-season-15260-1''" for title guid thumb
    by (simp add: mapSeason_ratingKey sampleSeason_def)
  let ?m = "mapSeason (sampleSeason dvdType 1) 15260 (series_name mockTVDBSeries)
    (show_guid_of 15260) (or_undefined (series_image mockTVDBSeries)) False"
  have "container_Metadata (single_item (Season ?m)) = [Season ?m]"
    by (simp add: single_item_def)
  with getMetadata_season_dvd key [of "series_name mockTVDBSeries" "show_guid_of 15260"
      "or_undefined (series_image mockTVDBSeries)"]
  have d: "\<exists>c m. getMetadata dvdClient ''tvdb-season-15260-1-dvd''
             \<lparr>opt_country = None, opt_includeChildren = None\<rparr> = Inr c \<and>
          container_Metadata c = [Season m] \<and> sm_ratingKey m = ''tvdb-season-15260-1''"
    by blast
  from a b key [of "''Show''" "show_guid_of 15260" None] d show ?thesis by (intro conjI)
qed

subsection \<open>Durations\<close>

lemma mapSeries_duration:
  "show_duration (mapSeries series ic c) =
     (case averageRuntime series of None \<Rightarrow> None
      | Some r \<Rightarrow> if r \<noteq> 0 then Some (r * 60 * 1000) else None)"
  by (simp add: mapSeries_def Let_def)

lemma mapSeries_contentRating:
  "show_contentRating (mapSeries series ic c) = getContentRating series c"
  by (simp add: mapSeries_def Let_def)

text \<open>
  C8, as stated: the duration is the average runtime times 60000 whenever the average
  runtime is present. It fails for a series whose average runtime is present and 0.
\<close>

theorem mapSeries_duration_zero_counterexample:
  "averageRuntime (mockTVDBSeries\<lparr>averageRuntime := Some 0\<rparr>) = Some 0 \<and>
   show_duration (mapSeries (mockTVDBSeries\<lparr>averageRuntime := Some 0\<rparr>) False None)
     \<noteq> Some (0 * 60000)"
  by (simp add: mapSeries_duration)

text \<open>
  C8, amended: the duration is the average runtime (minutes) times 60000 when the average
  runtime is present and not 0; it is absent when the average runtime is absent; an
  average runtime of 11 gives 660000.
\<close>

theorem mapSeries_duration_nonzero:
  "(averageRuntime series = None \<longrightarrow> show_duration (mapSeries series ic c) = None) \<and>
   (\<forall>r. averageRuntime series = Some r \<and> r \<noteq> 0 \<longrightarrow>
      show_duration (mapSeries series ic c) = Some (r * 60000)) \<and>
   (averageRuntime series = Some 11 \<longrightarrow> show_duration (mapSeries series ic c) = Some 660000)"
  by (simp add: mapSeries_duration)

theorem mapSeries_duration_nonzero_witness:
  "averageRuntime mockTVDBSeries = Some 11 \<and>
   show_duration (mapSeries mockTVDBSeries False None) = Some 660000 \<and>
   averageRuntime (mockTVDBSeries\<lparr>averageRuntime := None\<rparr>) = None \<and>
   show_duration (mapSeries (mockTVDBSeries\<lparr>averageRuntime := None\<rparr>) False None) = None"
proof -
  have a: "averageRuntime mockTVDBSeries = Some 11" by (simp add: mockTVDBSeries_def)
  have b: "averageRuntime (mockTVDBSeries\<lparr>averageRuntime := None\<rparr>) = None" by simp
  from mapSeries_duration_nonzero [of mockTVDBSeries False None] a
  have "show_duration (mapSeries mockTVDBSeries False None) = Some 660000" by blast
  moreover from mapSeries_duration_nonzero [of "mockTVDBSeries\<lparr>averageRuntime := None\<rparr>" False None] b
  have "show_duration (mapSeries (mockTVDBSeries\<lparr>averageRuntime := None\<rparr>) False None) = None"
    by blast
  ultimately show ?thesis using a b by simp
qed

text \<open>
  C9. A series whose average runtime is present and equal to 0 gets no duration: the
  output field is absent, not 0.
\<close>

theorem mapSeries_duration_zero_absent:
  "averageRuntime series = Some 0 \<Longrightarrow> show_duration (mapSeries series ic c) = None"
  by (simp add: mapSeries_duration)

theorem mapSeries_duration_zero_absent_witness:
  "averageRuntime (mockTVDBSeries\<lparr>averageRuntime := Some 0\<rparr>) = Some 0 \<and>
   show_duration (mapSeries (mockTVDBSeries\<lparr>averageRuntime := Some 0\<rparr>) True (Some ''GB''))
     = None"
proof -
  have a: "averageRuntime (mockTVDBSeries\<lparr>averageRuntime := Some 0\<rparr>) = Some 0" by simp
  from mapSeries_duration_zero_absent [OF a] a show ?thesis by simp
qed

subsection \<open>Content rating\<close>

lemma upper_char_cases:
  "c \<in> set ''abcdefghijklmnopqrstuvwxyz'' \<or> upper_char c = c"
  by (simp add: upper_char_def)

lemma lower_upper_letter:
  assumes "c \<in> set ''abcdefghijklmnopqrstuvwxyz''"
  shows "lower_char (upper_char c) = lower_char c"
proof -
  from assms have "c = CHR ''a'' \<or> c = CHR ''b'' \<or> c = CHR ''c'' \<or> c = CHR ''d'' \<or>
    c = CHR ''e'' \<or> c = CHR ''f'' \<or> c = CHR ''g'' \<or> c = CHR ''h'' \<or> c = CHR ''i'' \<or>
    c = CHR ''j'' \<or> c = CHR ''k'' \<or> c = CHR ''l'' \<or> c = CHR ''m'' \<or> c = CHR ''n'' \<or>
    c = CHR ''o'' \<or> c = CHR ''p'' \<or> c = CHR ''q'' \<or> c = CHR ''r'' \<or> c = CHR ''s'' \<or>
    c = CHR ''t'' \<or> c = CHR ''u'' \<or> c = CHR ''v'' \<or> c = CHR ''w'' \<or> c = CHR ''x'' \<or>
    c = CHR ''y'' \<or> c = CHR ''z''" by simp
  then show ?thesis
    by (elim disjE; simp add: upper_char_def lower_char_def)
qed

lemma lower_upper_char: "lower_char (upper_char c) = lower_char c"
proof (cases "c \<in> set ''abcdefghijklmnopqrstuvwxyz''")
  case True
  then show ?thesis by (rule lower_upper_letter)
next
  case False
  with upper_char_cases [of c] have "upper_char c = c" by blast
  then show ?thesis by simp
qed

lemma toLowerCase_toUpperCase: "toLowerCase (toUpperCase s) = toLowerCase s"
  by (simp add: toLowerCase_def toUpperCase_def lower_upper_char)

lemma same_upper_same_lower:
  assumes "toUpperCase a = toUpperCase b"
  shows "toLowerCase a = toLowerCase b"
proof -
  have "toLowerCase a = toLowerCase (toUpperCase a)" by (simp only: toLowerCase_toUpperCase)
  also have "\<dots> = toLowerCase (toUpperCase b)" by (simp only: assms)
  also have "\<dots> = toLowerCase b" by (simp only: toLowerCase_toUpperCase)
  finally show ?thesis .
qed

lemma or_else_same: "or_else (Some x) x = x"
  by (simp add: or_else_def or_undefined_def)

lemma content_rating_predicate:
  "(map_option toUpperCase (rating_country r) = Some (toUpperCase country) \<or>
    ((toUpperCase country = ''US'' \<or> toUpperCase country = ''USA'') \<and>
       map_option toUpperCase (rating_country r) = Some ''USA'') \<or>
    ((toUpperCase country = ''US'' \<or> toUpperCase country = ''USA'') \<and>
       map_option toUpperCase (rating_country r) = Some ''US'')) = rating_matches country r"
proof (cases "rating_country r")
  case None
  then show ?thesis by (simp add: rating_matches_def)
next
  case (Some c)
  then show ?thesis unfolding rating_matches_def us_equivalent_def by simp blast
qed

lemma getContentRating_unfold:
  "getContentRating series (Some country) =
     (case contentRatings series of None \<Rightarrow> None
      | Some ratings \<Rightarrow>
          (case find (rating_matches country) ratings of None \<Rightarrow> None
           | Some r \<Rightarrow>
               Some (if toUpperCase country = ''US'' \<or> toUpperCase country = ''USA''
                     then rating_name r
                     else or_else (map_option toLowerCase (rating_country r))
                            (toLowerCase country) @ ''/'' @ rating_name r)))"
  unfolding getContentRating_def Let_def option.case content_rating_predicate ..


lemma rating_matches_lower:
  assumes "rating_matches country r" and "\<not> us_equivalent country"
  shows "or_else (map_option toLowerCase (rating_country r)) (toLowerCase country) =
    toLowerCase country"
proof (cases "rating_country r")
  case None
  with assms show ?thesis by (simp add: rating_matches_def)
next
  case (Some c)
  with assms have "toUpperCase c = toUpperCase country" by (simp add: rating_matches_def)
  then have "toLowerCase c = toLowerCase country" by (rule same_upper_same_lower)
  with Some show ?thesis by (simp add: or_else_same)
qed

lemma getContentRating_resolve:
  assumes "contentRatings series = Some rs"
  shows "getContentRating series (Some country) = resolveContentRating rs country"
proof (cases "find (rating_matches country) rs")
  case None
  with assms show ?thesis
    unfolding getContentRating_unfold resolveContentRating_def by simp
next
  case (Some r)
  then have m: "rating_matches country r" by (simp add: find_Some_iff) blast
  show ?thesis
  proof (cases "us_equivalent country")
    case True
    with assms Some show ?thesis
      unfolding getContentRating_unfold resolveContentRating_def us_equivalent_def by simp
  next
    case False
    from rating_matches_lower [OF m False]
    have "or_else (map_option toLowerCase (rating_country r)) (toLowerCase country) =
      toLowerCase country" .
    with assms Some False show ?thesis
      unfolding getContentRating_unfold resolveContentRating_def us_equivalent_def by simp
  qed
qed

lemma getContentRating_absent:
  "contentRatings series = None \<Longrightarrow> getContentRating series c = None"
  by (simp add: getContentRating_def)

lemma getContentRating_default:
  "getContentRating series None = getContentRating series (Some ''US'')"
  by (simp add: getContentRating_def)


lemma us_equivalent_US: "us_equivalent ''US''"
  by (simp add: us_equivalent_def toUpperCase_def upper_char_def)

text \<open>
  C5. The content rating that \<open>mapSeries\<close> resolves for a requested country is the one
  the specification describes: absent without a content-ratings list, otherwise the
  resolution over the list (first entry whose upper-cased country code equals the
  upper-cased request, \<open>US\<close> and \<open>USA\<close> interchangeable; bare name for a
  US-equivalent request, lower-case country code, slash and name otherwise; absent when
  no entry matches).
\<close>

theorem mapSeries_contentRating_resolution:
  "(contentRatings series = None \<longrightarrow>
      show_contentRating (mapSeries series ic (Some country)) = None) \<and>
   (\<forall>rs. contentRatings series = Some rs \<longrightarrow>
      show_contentRating (mapSeries series ic (Some country)) = resolveContentRating rs country)"
  by (simp add: mapSeries_contentRating getContentRating_absent getContentRating_resolve)

theorem mapSeries_contentRating_resolution_witness:
  "show_contentRating (mapSeries mockTVDBSeries False (Some ''USA'')) = Some ''TV-PG'' \<and>
   show_contentRating (mapSeries mockTVDBSeries False (Some ''GB'')) = None \<and>
   show_contentRating
     (mapSeries (mockTVDBSeries\<lparr>contentRatings :=
        Some [\<lparr>rating_name = ''15'', rating_country = Some ''GBR''\<rparr>]\<rparr>) False (Some ''gbr''))
     = Some ''gbr/15'' \<and>
   show_contentRating (mapSeries (mockTVDBSeries\<lparr>contentRatings := None\<rparr>) False (Some ''US''))
     = None"
proof -
  have rs: "contentRatings mockTVDBSeries =
      Some [\<lparr>rating_name = ''TV-PG'', rating_country = Some ''usa''\<rparr>]"
    by (simp add: mockTVDBSeries_def)
  have up: "toUpperCase ''usa'' = ''USA''" "toUpperCase ''USA'' = ''USA''"
    "toUpperCase ''GB'' = ''GB''" "toUpperCase ''GBR'' = ''GBR''" "toUpperCase ''gbr'' = ''GBR''"
    by (simp_all add: toUpperCase_def upper_char_def)
  have lo: "toLowerCase ''gbr'' = ''gbr''" by (simp add: toLowerCase_def lower_char_def)
  have a: "resolveContentRating [\<lparr>rating_name = ''TV-PG'', rating_country = Some ''usa''\<rparr>] ''USA''
      = Some ''TV-PG''"
    by (simp add: resolveContentRating_def rating_matches_def us_equivalent_def up)
  have b: "resolveContentRating [\<lparr>rating_name = ''TV-PG'', rating_country = Some ''usa''\<rparr>] ''GB''
      = None"
    by (simp add: resolveContentRating_def rating_matches_def us_equivalent_def up)
  have c: "resolveContentRating [\<lparr>rating_name = ''15'', rating_country = Some ''GBR''\<rparr>] ''gbr''
      = Some ''gbr/15''"
    by (simp add: resolveContentRating_def rating_matches_def us_equivalent_def up lo)
  from mapSeries_contentRating_resolution [of mockTVDBSeries False "''USA''"] rs a
  have "show_contentRating (mapSeries mockTVDBSeries False (Some ''USA'')) = Some ''TV-PG''"
    by simp
  moreover from mapSeries_contentRating_resolution [of mockTVDBSeries False "''GB''"] rs b
  have "show_contentRating (mapSeries mockTVDBSeries False (Some ''GB'')) = None" by simp
  moreover from mapSeries_contentRating_resolution
    [of "mockTVDBSeries\<lparr>contentRatings :=
        Some [\<lparr>rating_name = ''15'', rating_country = Some ''GBR''\<rparr>]\<rparr>" False "''gbr''"] c
  have "show_contentRating
     (mapSeries (mockTVDBSeries\<lparr>contentRatings :=
        Some [\<lparr>rating_name = ''15'', rating_country = Some ''GBR''\<rparr>]\<rparr>) False (Some ''gbr''))
     = Some ''gbr/15''" by simp
  moreover from mapSeries_contentRating_resolution
    [of "mockTVDBSeries\<lparr>contentRatings := None\<rparr>" False "''US''"]
  have "show_contentRating (mapSeries (mockTVDBSeries\<lparr>contentRatings := None\<rparr>) False
      (Some ''US'')) = None" by simp
  ultimately show ?thesis by simp
qed

text \<open>
  C10. Without a country option \<open>mapSeries\<close> gives exactly the result it gives for the
  country \<open>US\<close>; in particular a series whose only content-rating entry has a
  US-equivalent country code gets the bare rating name.
\<close>

theorem mapSeries_default_country:
  "mapSeries series ic None = mapSeries series ic (Some ''US'') \<and>
   (\<forall>r c. contentRatings series = Some [r] \<and> rating_country r = Some c \<and> us_equivalent c \<longrightarrow>
      show_contentRating (mapSeries series ic None) = Some (rating_name r))"
proof -
  have eq: "mapSeries series ic None = mapSeries series ic (Some ''US'')"
    by (simp add: mapSeries_def getContentRating_default)
  have "show_contentRating (mapSeries series ic None) = Some (rating_name r)"
    if "contentRatings series = Some [r]" and "rating_country r = Some c" and "us_equivalent c"
    for r c
  proof -
    from that have "rating_matches ''US'' r"
      by (simp add: rating_matches_def us_equivalent_US)
    then have "resolveContentRating [r] ''US'' = Some (rating_name r)"
      by (simp add: resolveContentRating_def us_equivalent_US)
    with that(1) show ?thesis
      by (simp add: mapSeries_contentRating getContentRating_default getContentRating_resolve)
  qed
  with eq show ?thesis by blast
qed

theorem mapSeries_default_country_witness:
  "show_contentRating (mapSeries mockTVDBSeries False None) = Some ''TV-PG'' \<and>
   mapSeries mockTVDBSeries True None = mapSeries mockTVDBSeries True (Some ''US'')"
proof -
  have rs: "contentRatings mockTVDBSeries =
      Some [\<lparr>rating_name = ''TV-PG'', rating_country = Some ''usa''\<rparr>]"
    by (simp add: mockTVDBSeries_def)
  have us: "us_equivalent ''usa''"
    by (simp add: us_equivalent_def toUpperCase_def upper_char_def)
  from mapSeries_default_country [of mockTVDBSeries False]
  have "\<forall>r c. contentRatings mockTVDBSeries = Some [r] \<and> rating_country r = Some c \<and>
      us_equivalent c \<longrightarrow>
      show_contentRating (mapSeries mockTVDBSeries False None) = Some (rating_name r)"
    by (rule conjunct2)
  from this [rule_format, of "\<lparr>rating_name = ''TV-PG'', rating_country = Some ''usa''\<rparr>" "''usa''"]
    rs us
  have "show_contentRating (mapSeries mockTVDBSeries False None) = Some ''TV-PG''" by simp
  moreover from mapSeries_default_country [of mockTVDBSeries True]
  have "mapSeries mockTVDBSeries True None = mapSeries mockTVDBSeries True (Some ''US'')"
    by blast
  ultimately show ?thesis by simp
qed

subsection \<open>Cast\<close>

lemma insert_by_insort_key:
  fixes f :: "'a \<Rightarrow> int"
  shows "insert_by (\<lambda>a b. f a - f b) x ys = insort_key f x ys"
  by (induction ys) simp_all

lemma array_sort_sort_key:
  fixes f :: "'a \<Rightarrow> int"
  shows "array_sort (\<lambda>a b. f a - f b) xs = sort_key f xs"
proof -
  have "insert_by (\<lambda>a b. f a - f b) = insort_key f"
    by (intro ext) (rule insert_by_insort_key)
  then show ?thesis by (simp add: array_sort_def sort_key_def)
qed

lemma slice_from_0: "0 \<le> n \<Longrightarrow> slice xs 0 n = take (nat n) xs"
  by (simp add: slice_def Let_def min_def)

lemma length_map_index_from: "length (map_index_from j f xs) = length xs"
  by (induction xs arbitrary: j) simp_all

lemma nth_map_index_from:
  "i < length xs \<Longrightarrow> map_index_from j f xs ! i = f (xs ! i) (j + int i)"
proof (induction xs arbitrary: i j)
  case Nil
  then show ?case by simp
next
  case (Cons x xs)
  show ?case
  proof (cases i)
    case 0
    then show ?thesis by simp
  next
    case (Suc k)
    with Cons.prems have "k < length xs" by simp
    from Cons.IH [OF this, of "j + 1"] Suc show ?thesis by (simp add: add.assoc)
  qed
qed

lemma length_map_index: "length (map_index f xs) = length xs"
  by (simp add: map_index_def length_map_index_from)

lemma nth_map_index: "i < length xs \<Longrightarrow> map_index f xs ! i = f (xs ! i) (int i)"
  by (simp add: map_index_def nth_map_index_from)

lemma mapCast_Some:
  "cs \<noteq> [] \<Longrightarrow> mapCast (Some cs) =
     Some (map_index
       (\<lambda>member index. \<lparr>tag = personName member, role = Some (character_name member),
          order = Some (index + 1), person_thumb = or_undefined (personImgURL member)\<rparr>)
       (take 1000 (sort_key character_sort (filter (\<lambda>c. character_type c = 3) cs))))"
  by (simp add: mapCast_def Let_def array_sort_sort_key slice_from_0)

text \<open>
  C4. \<open>mapCast\<close> gives nothing for an absent or empty character list. For a non-empty
  list its result is built from a list \<open>srt\<close> that holds exactly the characters of type
  code 3, is ascending in the \<open>sort\<close> field and keeps the input order among equal
  \<open>sort\<close> values; the result has the first 1000 entries of \<open>srt\<close>, and entry \<open>i\<close>
  (counted from 0) carries the person and character name of \<open>srt ! i\<close> and the order
  \<open>i + 1\<close>, whatever the \<open>sort\<close> values are.
\<close>

theorem mapCast_order:
  "mapCast None = None \<and> mapCast (Some []) = None \<and>
   (cs \<noteq> [] \<longrightarrow>
      (\<exists>ps srt. mapCast (Some cs) = Some ps \<and>
         mset srt = mset (filter (\<lambda>c. character_type c = 3) cs) \<and>
         sorted (map character_sort srt) \<and>
         (\<forall>k. filter (\<lambda>c. character_sort c = k) srt =
              filter (\<lambda>c. character_sort c = k) (filter (\<lambda>c. character_type c = 3) cs)) \<and>
         length ps = min 1000 (length srt) \<and>
         (\<forall>i<length ps. tag (ps ! i) = personName (srt ! i) \<and>
            role (ps ! i) = Some (character_name (srt ! i)) \<and>
            order (ps ! i) = Some (int i + 1))))"
proof -
  have none: "mapCast None = None" "mapCast (Some []) = None"
    by (simp_all add: mapCast_def)
  have "\<exists>ps srt. mapCast (Some cs) = Some ps \<and>
         mset srt = mset (filter (\<lambda>c. character_type c = 3) cs) \<and>
         sorted (map character_sort srt) \<and>
         (\<forall>k. filter (\<lambda>c. character_sort c = k) srt =
              filter (\<lambda>c. character_sort c = k) (filter (\<lambda>c. character_type c = 3) cs)) \<and>
         length ps = min 1000 (length srt) \<and>
         (\<forall>i<length ps. tag (ps ! i) = personName (srt ! i) \<and>
            role (ps ! i) = Some (character_name (srt ! i)) \<and>
            order (ps ! i) = Some (int i + 1))" if ne: "cs \<noteq> []"
  proof -
    let ?actors = "filter (\<lambda>c. character_type c = 3) cs"
    let ?srt = "sort_key character_sort ?actors"
    let ?f = "\<lambda>member index. \<lparr>tag = personName member, role = Some (character_name member),
          order = Some (index + 1), person_thumb = or_undefined (personImgURL member)\<rparr>"
    let ?ps = "map_index ?f (take 1000 ?srt)"
    have a: "mapCast (Some cs) = Some ?ps" using ne by (rule mapCast_Some)
    have b: "mset ?srt = mset ?actors" by simp
    have c: "sorted (map character_sort ?srt)" by (rule sorted_sort_key)
    have d: "filter (\<lambda>c. character_sort c = k) ?srt = filter (\<lambda>c. character_sort c = k) ?actors"
      for k by (rule sort_key_stable)
    have e: "length ?ps = min 1000 (length ?srt)" by (simp add: length_map_index)
    have f: "tag (?ps ! i) = personName (?srt ! i) \<and>
            role (?ps ! i) = Some (character_name (?srt ! i)) \<and>
            order (?ps ! i) = Some (int i + 1)" if "i < length ?ps" for i
    proof -
      from that have "i < length (take 1000 ?srt)" by (simp add: length_map_index)
      then have "?ps ! i = ?f (take 1000 ?srt ! i) (int i)" by (rule nth_map_index)
      moreover from \<open>i < length (take 1000 ?srt)\<close> have "take 1000 ?srt ! i = ?srt ! i" by simp
      ultimately show ?thesis by simp
    qed
    from a b c d e f show ?thesis by blast
  qed
  with none show ?thesis by blast
qed


theorem mapCast_order_witness:
  "[sampleCharacter ''A'' ''a'' 3 50, sampleCharacter ''B'' ''b'' 1 0,
    sampleCharacter ''C'' ''c'' 3 7, sampleCharacter ''D'' ''d'' 3 50] \<noteq> [] \<and>
   mapCast (Some [sampleCharacter ''A'' ''a'' 3 50, sampleCharacter ''B'' ''b'' 1 0,
      sampleCharacter ''C'' ''c'' 3 7, sampleCharacter ''D'' ''d'' 3 50]) =
     Some [\<lparr>tag = ''C'', role = Some ''c'', order = Some 1, person_thumb = None\<rparr>,
           \<lparr>tag = ''A'', role = Some ''a'', order = Some 2, person_thumb = None\<rparr>,
           \<lparr>tag = ''D'', role = Some ''d'', order = Some 3, person_thumb = None\<rparr>] \<and>
   (\<exists>ps. mapCast (Some [sampleCharacter ''A'' ''a'' 3 50, sampleCharacter ''B'' ''b'' 1 0,
      sampleCharacter ''C'' ''c'' 3 7, sampleCharacter ''D'' ''d'' 3 50]) = Some ps \<and>
      length ps = 3 \<and> order (ps ! 0) = Some 1 \<and> order (ps ! 2) = Some 3)"
proof -
  let ?cs = "[sampleCharacter ''A'' ''a'' 3 50, sampleCharacter ''B'' ''b'' 1 0,
    sampleCharacter ''C'' ''c'' 3 7, sampleCharacter ''D'' ''d'' 3 50]"
  let ?out = "[\<lparr>tag = ''C'', role = Some ''c'', order = Some 1, person_thumb = None\<rparr>,
           \<lparr>tag = ''A'', role = Some ''a'', order = Some 2, person_thumb = None\<rparr>,
           \<lparr>tag = ''D'', role = Some ''d'', order = Some 3, person_thumb = None\<rparr>]"
  have ne: "?cs \<noteq> []" by simp
  have ev: "mapCast (Some ?cs) = Some ?out"
    by (simp add: mapCast_def Let_def sampleCharacter_def array_sort_def slice_def
        map_index_def or_undefined_def)
  note mapCast_order [of ?cs, THEN conjunct2, THEN conjunct2, THEN mp, OF ne]
  then obtain ps and srt :: "TVDBCharacter list" where ps: "mapCast (Some ?cs) = Some ps"
    and ord: "\<forall>i<length ps. tag (ps ! i) = personName (srt ! i) \<and>
            role (ps ! i) = Some (character_name (srt ! i)) \<and>
            order (ps ! i) = Some (int i + 1)"
    by blast
  from ps ev have "ps = ?out" by simp
  then have len: "length ps = 3" by simp
  from ord [rule_format, of 0] len have o0: "order (ps ! 0) = Some 1" by simp
  from ord [rule_format, of 2] len have o2: "order (ps ! 2) = Some 3" by simp
  from ps len o0 o2 have "\<exists>ps. mapCast (Some ?cs) = Some ps \<and>
      length ps = 3 \<and> order (ps ! 0) = Some 1 \<and> order (ps ! 2) = Some 3" by blast
  with ne ev show ?thesis by (intro conjI)
qed

subsection \<open>Paging of getChildren\<close>

lemma slice_window:
  assumes "0 \<le> a" and "a \<le> b"
  shows "slice xs a b = take (nat (b - a)) (drop (nat a) xs)"
proof (cases "a \<le> int (length xs)")
  case True
  with assms show ?thesis
    by (simp add: slice_def Let_def min_def nat_diff_distrib)
next
  case False
  with assms show ?thesis by (simp add: slice_def Let_def min_def)
qed

lemma paged_fields:
  "offset (paged xs paging) = nullish (paging_containerStart paging) 1 - 1"
  "totalSize (paged xs paging) = int (length xs)"
  "container_size (paged xs paging) = int (length (container_Metadata (paged xs paging)))"
  "container_Metadata (paged xs paging) =
     slice xs (nullish (paging_containerStart paging) 1 - 1)
       (nullish (paging_containerStart paging) 1 - 1 + nullish (paging_containerSize paging) 20)"
  by (simp_all add: paged_def Let_def)

lemma getChildren_show:
  assumes "parseRatingKey ratingKey = Some parsed" and "parsed_type parsed = TypeShow"
    and "getSeriesDetails client (parsed_seriesId parsed) = Inr seriesDetails"
  shows "getChildren client ratingKey options paging =
    Inr (paged (map Season (allSeasons seriesDetails (parsed_seriesId parsed))) paging)"
  using assms by (simp add: getChildren_def)


text \<open>
  C6. For a show identifier whose series the client returns, \<open>getChildren\<close> returns
  the page of the full list of mapped seasons (official or default ordering, number at
  least 0): offset is \<open>start - 1\<close>, totalSize the length of the full list, size the
  length of the returned list, and the returned list is \<open>slice(start - 1, start - 1 + size)\<close>
  of the full list, with \<open>start\<close> defaulting to 1 and \<open>size\<close> to 20. For
  \<open>start\<close> at least 1 and a non-negative \<open>size\<close> that is the \<open>size\<close> entries after
  the first \<open>start - 1\<close>. With ten seasons in the full list, start 1 and size 20 return
  all ten with offset 0, totalSize 10 and size 10, and start 11 returns size 0.
\<close>

theorem getChildren_show_paging:
  assumes "parseRatingKey ratingKey = Some parsed" and "parsed_type parsed = TypeShow"
    and "getSeriesDetails client (parsed_seriesId parsed) = Inr seriesDetails"
  shows "(let start = nullish (paging_containerStart paging) 1;
              sz = nullish (paging_containerSize paging) 20;
              full = map Season (allSeasons seriesDetails (parsed_seriesId parsed))
          in \<exists>c. getChildren client ratingKey options paging = Inr c \<and>
               offset c = start - 1 \<and>
               totalSize c = int (length full) \<and>
               container_size c = int (length (container_Metadata c)) \<and>
               container_Metadata c = slice full (start - 1) (start - 1 + sz) \<and>
               (1 \<le> start \<and> 0 \<le> sz \<longrightarrow>
                  container_Metadata c = take (nat sz) (drop (nat (start - 1)) full)) \<and>
               (length full = 10 \<and> start = 1 \<and> sz = 20 \<longrightarrow>
                  container_Metadata c = full \<and> offset c = 0 \<and> totalSize c = 10 \<and>
                  container_size c = 10) \<and>
               (length full = 10 \<and> start = 11 \<and> sz = 20 \<longrightarrow> container_size c = 0))"
proof -
  let ?start = "nullish (paging_containerStart paging) 1"
  let ?sz = "nullish (paging_containerSize paging) 20"
  let ?full = "map Season (allSeasons seriesDetails (parsed_seriesId parsed))"
  let ?c = "paged ?full paging"
  have r: "getChildren client ratingKey options paging = Inr ?c"
    using assms by (rule getChildren_show)
  have o: "offset ?c = ?start - 1" and t: "totalSize ?c = int (length ?full)"
    and s: "container_size ?c = int (length (container_Metadata ?c))"
    and m: "container_Metadata ?c = slice ?full (?start - 1) (?start - 1 + ?sz)"
    by (rule paged_fields)+
  have w: "container_Metadata ?c = take (nat ?sz) (drop (nat (?start - 1)) ?full)"
    if "1 \<le> ?start \<and> 0 \<le> ?sz"
    using that slice_window [of "?start - 1" "?start - 1 + ?sz" ?full] m by simp
  have p1: "container_Metadata ?c = ?full \<and> offset ?c = 0 \<and> totalSize ?c = 10 \<and>
      container_size ?c = 10" if h: "length ?full = 10 \<and> ?start = 1 \<and> ?sz = 20"
  proof -
    from h w have "container_Metadata ?c = take 20 ?full" by simp
    with h have "container_Metadata ?c = ?full" by simp
    with h o t s show ?thesis by simp
  qed
  have p2: "container_size ?c = 0" if h: "length ?full = 10 \<and> ?start = 11 \<and> ?sz = 20"
  proof -
    from h w have "container_Metadata ?c = take 20 (drop 10 ?full)" by simp
    with h have "container_Metadata ?c = []" by simp
    with s show ?thesis by simp
  qed
  from r o t s m w p1 p2 show ?thesis unfolding Let_def by blast
qed


lemma length_allSeasons_tenSeasons: "length (allSeasons tenSeasons sid) = 10"
  by (simp add: allSeasons_def tenSeasons_def sampleSeason_def officialType_def dvdType_def)

lemma parse_show_152831:
  "parseRatingKey ''tvdb-show-152831'' =
     Some \<lparr>parsed_type = TypeShow, parsed_seriesId = 152831, parsed_seasonNumber = None,
       parsed_episodeNumber = None, parsed_seasonType = None\<rparr>"
  by (simp add: parseRatingKey_def decode_forms_def showForm_def showRe_def is_digit_def
      parseInt_def digit_val_def)

theorem getChildren_show_paging_witness:
  "(\<exists>c. getChildren (sampleClient tenSeasons) ''tvdb-show-152831''
          \<lparr>opt_country = None, opt_includeChildren = None\<rparr>
          \<lparr>paging_containerSize = Some 20, paging_containerStart = Some 1\<rparr> = Inr c \<and>
        offset c = 0 \<and> totalSize c = 10 \<and> container_size c = 10 \<and>
        length (container_Metadata c) = 10) \<and>
   (\<exists>c. getChildren (sampleClient tenSeasons) ''tvdb-show-152831''
          \<lparr>opt_country = None, opt_includeChildren = None\<rparr>
          \<lparr>paging_containerSize = Some 20, paging_containerStart = Some 11\<rparr> = Inr c \<and>
        offset c = 10 \<and> totalSize c = 10 \<and> container_size c = 0) \<and>
   (\<exists>c. getChildren (sampleClient tenSeasons) ''tvdb-show-152831''
          \<lparr>opt_country = None, opt_includeChildren = None\<rparr>
          \<lparr>paging_containerSize = None, paging_containerStart = None\<rparr> = Inr c \<and>
        offset c = 0 \<and> totalSize c = 10 \<and> container_size c = 10)"
proof -
  let ?parsed = "\<lparr>parsed_type = TypeShow, parsed_seriesId = 152831, parsed_seasonNumber = None,
       parsed_episodeNumber = None, parsed_seasonType = None\<rparr>"
  let ?full = "map Season (allSeasons tenSeasons (parsed_seriesId ?parsed))"
  let ?opts = "\<lparr>opt_country = None, opt_includeChildren = None\<rparr>"
  let ?p1 = "\<lparr>paging_containerSize = Some 20, paging_containerStart = Some 1\<rparr>"
  let ?p2 = "\<lparr>paging_containerSize = Some 20, paging_containerStart = Some 11\<rparr>"
  let ?p3 = "\<lparr>paging_containerSize = None, paging_containerStart = None\<rparr>"
  have ty: "parsed_type ?parsed = TypeShow" by simp
  have cl: "getSeriesDetails (sampleClient tenSeasons) (parsed_seriesId ?parsed) = Inr tenSeasons"
    by (simp add: sampleClient_def)
  have len: "length ?full = 10"
    by (simp add: length_allSeasons_tenSeasons)
  have n1: "nullish (paging_containerStart ?p1) 1 = 1" "nullish (paging_containerSize ?p1) 20 = 20"
    and n2: "nullish (paging_containerStart ?p2) 1 = 11" "nullish (paging_containerSize ?p2) 20 = 20"
    and n3: "nullish (paging_containerStart ?p3) 1 = 1" "nullish (paging_containerSize ?p3) 20 = 20"
    by (simp_all add: nullish_def)
  note th = getChildren_show_paging [OF parse_show_152831 ty cl, unfolded Let_def]
  from th [of ?opts ?p1] obtain c1 where
    g1: "getChildren (sampleClient tenSeasons) ''tvdb-show-152831'' ?opts ?p1 = Inr c1"
    and i1: "length ?full = 10 \<and> nullish (paging_containerStart ?p1) 1 = 1 \<and>
      nullish (paging_containerSize ?p1) 20 = 20 \<longrightarrow>
      container_Metadata c1 = ?full \<and> offset c1 = 0 \<and> totalSize c1 = 10 \<and> container_size c1 = 10"
    by blast
  from i1 len n1 have r1: "container_Metadata c1 = ?full \<and> offset c1 = 0 \<and> totalSize c1 = 10 \<and>
    container_size c1 = 10" by blast
  with len have l1: "length (container_Metadata c1) = 10" by simp
  from th [of ?opts ?p2] obtain c2 where
    g2: "getChildren (sampleClient tenSeasons) ''tvdb-show-152831'' ?opts ?p2 = Inr c2"
    and o2: "offset c2 = nullish (paging_containerStart ?p2) 1 - 1"
    and t2: "totalSize c2 = int (length ?full)"
    and i2: "length ?full = 10 \<and> nullish (paging_containerStart ?p2) 1 = 11 \<and>
      nullish (paging_containerSize ?p2) 20 = 20 \<longrightarrow> container_size c2 = 0"
    by blast
  from i2 len n2 have r2: "container_size c2 = 0" by blast
  from o2 n2 have o2': "offset c2 = 10" by simp
  from t2 len have t2': "totalSize c2 = 10" by simp
  from th [of ?opts ?p3] obtain c3 where
    g3: "getChildren (sampleClient tenSeasons) ''tvdb-show-152831'' ?opts ?p3 = Inr c3"
    and i3: "length ?full = 10 \<and> nullish (paging_containerStart ?p3) 1 = 1 \<and>
      nullish (paging_containerSize ?p3) 20 = 20 \<longrightarrow>
      container_Metadata c3 = ?full \<and> offset c3 = 0 \<and> totalSize c3 = 10 \<and> container_size c3 = 10"
    by blast
  from i3 len n3 have r3: "container_Metadata c3 = ?full \<and> offset c3 = 0 \<and> totalSize c3 = 10 \<and>
    container_size c3 = 10" by blast
  from g1 r1 l1 have a: "\<exists>c. getChildren (sampleClient tenSeasons) ''tvdb-show-152831'' ?opts ?p1 = Inr c \<and>
        offset c = 0 \<and> totalSize c = 10 \<and> container_size c = 10 \<and>
        length (container_Metadata c) = 10" by blast
  from g2 o2' t2' r2 have b: "\<exists>c. getChildren (sampleClient tenSeasons) ''tvdb-show-152831'' ?opts ?p2 = Inr c \<and>
        offset c = 10 \<and> totalSize c = 10 \<and> container_size c = 0" by blast
  from g3 r3 have c: "\<exists>c. getChildren (sampleClient tenSeasons) ''tvdb-show-152831'' ?opts ?p3 = Inr c \<and>
        offset c = 0 \<and> totalSize c = 10 \<and> container_size c = 10" by blast
  from a b c show ?thesis by (intro conjI)
qed

subsection \<open>Errors of getMetadata\<close>

lemma getMetadata_invalid:
  "parseRatingKey ratingKey = None \<Longrightarrow>
   getMetadata client ratingKey options = Inl (Error (''Invalid ratingKey format: '' @ ratingKey))"
  by (simp add: getMetadata_def)

lemma getMetadata_season_not_found:
  assumes "parseRatingKey ratingKey = Some p" and "parsed_type p = TypeSeason"
    and "parsed_seasonNumber p = Some n"
    and "getSeriesDetails client (parsed_seriesId p) = Inr seriesDetails"
    and "getSeasonByNumber client (parsed_seriesId p) n (or_else (parsed_seasonType p) ''default'')
      = Inr None"
  shows "getMetadata client ratingKey options =
    Inl (Error (''Season '' @ number_toString n @ '' not found for series '' @
      number_toString (parsed_seriesId p)))"
  using assms by (simp add: getMetadata_def getSeason_def)

lemma getMetadata_episode_not_found:
  assumes "parseRatingKey ratingKey = Some p" and "parsed_type p = TypeEpisode"
    and "parsed_seasonNumber p = Some n" and "parsed_episodeNumber p = Some e"
    and "getSeriesDetails client (parsed_seriesId p) = Inr seriesDetails"
    and "getEpisodeByNumber client (parsed_seriesId p) n e
      (or_else (parsed_seasonType p) ''default'') = Inr None"
  shows "getMetadata client ratingKey options =
    Inl (Error (''Episode S'' @ number_toString n @ ''E'' @ number_toString e @
      '' not found for series '' @ number_toString (parsed_seriesId p)))"
  using assms by (simp add: getMetadata_def getEpisode_def)

lemma error_kinds:
  "invalid_identifier (Error (''Invalid ratingKey format: '' @ k))"
  "\<not> not_found (Error (''Invalid ratingKey format: '' @ k))"
  "not_found (Error (''Season '' @ x))"
  "\<not> invalid_identifier (Error (''Season '' @ x))"
  "not_found (Error (''Episode S'' @ y))"
  "\<not> invalid_identifier (Error (''Episode S'' @ y))"
  by (simp_all add: invalid_identifier_def not_found_def)


text \<open>
  C7. \<open>getMetadata\<close> fails with the error \<open>Invalid ratingKey format: ...\<close> when the
  identifier does not decode, and with \<open>Season ... not found for series ...\<close> or
  \<open>Episode S...E... not found for series ...\<close> when the identifier decodes to a season
  or an episode, the series call succeeds and the lookup by number returns nothing. Each
  failure is the result of the call (nothing is returned in its place), and the two kinds
  are told apart by the fixed text the message starts with: the test for one kind holds
  of its errors and fails on the errors of the other.
\<close>

theorem getMetadata_error_kinds:
  "(parseRatingKey ratingKey = None \<longrightarrow>
      (\<exists>err. getMetadata client ratingKey options = Inl err \<and>
         err = Error (''Invalid ratingKey format: '' @ ratingKey) \<and>
         invalid_identifier err \<and> \<not> not_found err)) \<and>
   (\<forall>p n seriesDetails.
      parseRatingKey ratingKey = Some p \<and> parsed_type p = TypeSeason \<and>
      parsed_seasonNumber p = Some n \<and>
      getSeriesDetails client (parsed_seriesId p) = Inr seriesDetails \<and>
      getSeasonByNumber client (parsed_seriesId p) n (or_else (parsed_seasonType p) ''default'')
        = Inr None \<longrightarrow>
      (\<exists>err. getMetadata client ratingKey options = Inl err \<and>
         err = Error (''Season '' @ number_toString n @ '' not found for series '' @
                 number_toString (parsed_seriesId p)) \<and>
         not_found err \<and> \<not> invalid_identifier err)) \<and>
   (\<forall>p n e seriesDetails.
      parseRatingKey ratingKey = Some p \<and> parsed_type p = TypeEpisode \<and>
      parsed_seasonNumber p = Some n \<and> parsed_episodeNumber p = Some e \<and>
      getSeriesDetails client (parsed_seriesId p) = Inr seriesDetails \<and>
      getEpisodeByNumber client (parsed_seriesId p) n e
        (or_else (parsed_seasonType p) ''default'') = Inr None \<longrightarrow>
      (\<exists>err. getMetadata client ratingKey options = Inl err \<and>
         err = Error (''Episode S'' @ number_toString n @ ''E'' @ number_toString e @
                 '' not found for series '' @ number_toString (parsed_seriesId p)) \<and>
         not_found err \<and> \<not> invalid_identifier err))"
proof (intro conjI allI impI)
  assume "parseRatingKey ratingKey = None"
  then have "getMetadata client ratingKey options =
      Inl (Error (''Invalid ratingKey format: '' @ ratingKey))"
    by (rule getMetadata_invalid)
  with error_kinds(1,2) [of ratingKey]
  show "\<exists>err. getMetadata client ratingKey options = Inl err \<and>
         err = Error (''Invalid ratingKey format: '' @ ratingKey) \<and>
         invalid_identifier err \<and> \<not> not_found err"
    by blast
next
  fix p n seriesDetails
  assume h: "parseRatingKey ratingKey = Some p \<and> parsed_type p = TypeSeason \<and>
      parsed_seasonNumber p = Some n \<and>
      getSeriesDetails client (parsed_seriesId p) = Inr seriesDetails \<and>
      getSeasonByNumber client (parsed_seriesId p) n (or_else (parsed_seasonType p) ''default'')
        = Inr None"
  then have "getMetadata client ratingKey options =
      Inl (Error (''Season '' @ number_toString n @ '' not found for series '' @
                 number_toString (parsed_seriesId p)))"
    by (intro getMetadata_season_not_found [of ratingKey p n client seriesDetails]) simp_all
  with error_kinds(3,4)
    [of "number_toString n @ '' not found for series '' @ number_toString (parsed_seriesId p)"]
  show "\<exists>err. getMetadata client ratingKey options = Inl err \<and>
         err = Error (''Season '' @ number_toString n @ '' not found for series '' @
                 number_toString (parsed_seriesId p)) \<and>
         not_found err \<and> \<not> invalid_identifier err"
    by blast
next
  fix p n e seriesDetails
  assume h: "parseRatingKey ratingKey = Some p \<and> parsed_type p = TypeEpisode \<and>
      parsed_seasonNumber p = Some n \<and> parsed_episodeNumber p = Some e \<and>
      getSeriesDetails client (parsed_seriesId p) = Inr seriesDetails \<and>
      getEpisodeByNumber client (parsed_seriesId p) n e
        (or_else (parsed_seasonType p) ''default'') = Inr None"
  then have "getMetadata client ratingKey options =
      Inl (Error (''Episode S'' @ number_toString n @ ''E'' @ number_toString e @
                 '' not found for series '' @ number_toString (parsed_seriesId p)))"
    by (intro getMetadata_episode_not_found [of ratingKey p n e client seriesDetails]) simp_all
  with error_kinds(5,6)
    [of "number_toString n @ ''E'' @ number_toString e @
                 '' not found for series '' @ number_toString (parsed_seriesId p)"]
  show "\<exists>err. getMetadata client ratingKey options = Inl err \<and>
         err = Error (''Episode S'' @ number_toString n @ ''E'' @ number_toString e @
                 '' not found for series '' @ number_toString (parsed_seriesId p)) \<and>
         not_found err \<and> \<not> invalid_identifier err"
    by blast
qed


lemma parse_samples:
  "parseRatingKey ''tvdb-movie-105'' = None"
  "parseRatingKey ''tvdb-season-152831-3'' =
     Some \<lparr>parsed_type = TypeSeason, parsed_seriesId = 152831, parsed_seasonNumber = Some 3,
       parsed_episodeNumber = None, parsed_seasonType = None\<rparr>"
  "parseRatingKey ''tvdb-episode-152831-10-1'' =
     Some \<lparr>parsed_type = TypeEpisode, parsed_seriesId = 152831, parsed_seasonNumber = Some 10,
       parsed_episodeNumber = Some 1, parsed_seasonType = None\<rparr>"
  by (simp_all add: parseRatingKey_def decode_forms_def showForm_def seasonTypeForm_def
      seasonForm_def episodeTypeForm_def episodeForm_def showRe_def seasonTypeRe_def
      seasonRe_def episodeTypeRe_def episodeRe_def is_digit_def is_lower_def parseInt_def
      digit_val_def)

lemma number_samples:
  "number_toString 3 = ''3''" "number_toString 10 = ''10''" "number_toString 1 = ''1''"
  "number_toString 152831 = ''152831''"
  by (simp_all add: number_toString_def nat_digits.simps digit_char_def)

theorem getMetadata_error_kinds_witness:
  "getMetadata (sampleClient mockTVDBSeries) ''tvdb-movie-105''
      \<lparr>opt_country = None, opt_includeChildren = None\<rparr> =
     Inl (Error ''Invalid ratingKey format: tvdb-movie-105'') \<and>
   getMetadata (sampleClient mockTVDBSeries) ''tvdb-season-152831-3''
      \<lparr>opt_country = None, opt_includeChildren = None\<rparr> =
     Inl (Error ''Season 3 not found for series 152831'') \<and>
   getMetadata (sampleClient mockTVDBSeries) ''tvdb-episode-152831-10-1''
      \<lparr>opt_country = None, opt_includeChildren = None\<rparr> =
     Inl (Error ''Episode S10E1 not found for series 152831'') \<and>
   invalid_identifier (Error ''Invalid ratingKey format: tvdb-movie-105'') \<and>
   \<not> not_found (Error ''Invalid ratingKey format: tvdb-movie-105'') \<and>
   not_found (Error ''Season 3 not found for series 152831'') \<and>
   \<not> invalid_identifier (Error ''Season 3 not found for series 152831'') \<and>
   not_found (Error ''Episode S10E1 not found for series 152831'') \<and>
   \<not> invalid_identifier (Error ''Episode S10E1 not found for series 152831'')"
proof -
  let ?C = "sampleClient mockTVDBSeries"
  let ?O = "\<lparr>opt_country = None, opt_includeChildren = None\<rparr>"
  let ?P = "\<lparr>parsed_type = TypeSeason, parsed_seriesId = 152831, parsed_seasonNumber = Some 3,
       parsed_episodeNumber = None, parsed_seasonType = None\<rparr>"
  let ?Q = "\<lparr>parsed_type = TypeEpisode, parsed_seriesId = 152831, parsed_seasonNumber = Some 10,
       parsed_episodeNumber = Some 1, parsed_seasonType = None\<rparr>"
  have a: "\<exists>err. getMetadata ?C ''tvdb-movie-105'' ?O = Inl err \<and>
         err = Error (''Invalid ratingKey format: '' @ ''tvdb-movie-105'') \<and>
         invalid_identifier err \<and> \<not> not_found err"
    by (rule getMetadata_error_kinds [of "''tvdb-movie-105''" ?C ?O, THEN conjunct1, THEN mp])
       (rule parse_samples(1))
  have hs: "parseRatingKey ''tvdb-season-152831-3'' = Some ?P \<and> parsed_type ?P = TypeSeason \<and>
      parsed_seasonNumber ?P = Some 3 \<and>
      getSeriesDetails ?C (parsed_seriesId ?P) = Inr mockTVDBSeries \<and>
      getSeasonByNumber ?C (parsed_seriesId ?P) 3 (or_else (parsed_seasonType ?P) ''default'')
        = Inr None"
    by (simp add: parse_samples(2) sampleClient_def)
  have b: "\<exists>err. getMetadata ?C ''tvdb-season-152831-3'' ?O = Inl err \<and>
         err = Error (''Season '' @ number_toString 3 @ '' not found for series '' @
                 number_toString (parsed_seriesId ?P)) \<and>
         not_found err \<and> \<not> invalid_identifier err"
    by (rule getMetadata_error_kinds [of "''tvdb-season-152831-3''" ?C ?O, THEN conjunct2,
          THEN conjunct1, THEN spec, THEN spec, THEN spec, THEN mp]) (rule hs)
  have he: "parseRatingKey ''tvdb-episode-152831-10-1'' = Some ?Q \<and>
      parsed_type ?Q = TypeEpisode \<and>
      parsed_seasonNumber ?Q = Some 10 \<and> parsed_episodeNumber ?Q = Some 1 \<and>
      getSeriesDetails ?C (parsed_seriesId ?Q) = Inr mockTVDBSeries \<and>
      getEpisodeByNumber ?C (parsed_seriesId ?Q) 10 1
        (or_else (parsed_seasonType ?Q) ''default'') = Inr None"
    by (simp add: parse_samples(3) sampleClient_def)
  have c: "\<exists>err. getMetadata ?C ''tvdb-episode-152831-10-1'' ?O = Inl err \<and>
         err = Error (''Episode S'' @ number_toString 10 @ ''E'' @ number_toString 1 @
                 '' not found for series '' @ number_toString (parsed_seriesId ?Q)) \<and>
         not_found err \<and> \<not> invalid_identifier err"
    by (rule getMetadata_error_kinds [of "''tvdb-episode-152831-10-1''" ?C ?O, THEN conjunct2,
          THEN conjunct2, THEN spec, THEN spec, THEN spec, THEN spec, THEN mp]) (rule he)
  from a b c show ?thesis by (simp add: number_samples)
qed

end
